theory Spec2Isabelle
  imports Complex_Main "HOL-Library.Sublist"
begin

section \<open>Orchestrator: running one scenario\<close>

text \<open>
  The model of \<^verbatim>\<open>QAOrchestrator.runScenario\<close> (src/src/QAOrchestrator.ts).
  Console output and the wall-clock fields (\<^verbatim>\<open>startTime\<close>, \<^verbatim>\<open>endTime\<close>,
  \<^verbatim>\<open>timestamp\<close>) are left out; everything else is kept. Effects on the browser,
  the network and the diagnostic agent are threaded through a world state \<open>'w\<close>.
  An \<^verbatim>\<open>await\<close> that rejects is the value \<open>Inl message\<close>.
\<close>

datatype status = StPassed | StFailed | StError | StRunning

text \<open>The step of a plan (\<^verbatim>\<open>interface Step\<close>). The payload type \<open>'j\<close> is fixed
  further down; \<open>selector = None\<close> is JavaScript's \<^verbatim>\<open>null\<close>, which the heuristic
  interpretation can produce; \<open>validation\<close> is the pair of \<^verbatim>\<open>type\<close> and
  \<^verbatim>\<open>expected\<close>.\<close>

record 'j Step =
  gherkinStep :: string
  action :: string
  selector :: "string option"
  data :: 'j
  description :: string
  validation :: "(string \<times> 'j) option"

text \<open>\<^verbatim>\<open>interface Scenario\<close>; its field \<^verbatim>\<open>context\<close> is \<open>sc_context\<close> here.\<close>

record 'j Scenario =
  name :: string
  sc_context :: string
  steps :: "'j Step list"

text \<open>\<^verbatim>\<open>interface StepResult\<close>; the fields \<^verbatim>\<open>step\<close>, \<^verbatim>\<open>action\<close> and
  \<^verbatim>\<open>error\<close> carry the prefix \<open>res_\<close> here, those of \<^verbatim>\<open>ScenarioResult\<close> the
  prefix \<open>sr_\<close>.\<close>

record 'd StepResult =
  success :: bool
  res_step :: string
  res_action :: string
  res_error :: "string option"
  diagnostic :: "'d option"

record 'd ScenarioResult =
  sr_name :: string
  sr_context :: string
  sr_steps :: "'d StepResult list"
  sr_status :: status
  sr_error :: "string option"

record OverallStats =
  totalFeatures :: nat
  totalScenarios :: nat
  totalSteps :: nat
  passed :: nat
  failed :: nat

type_synonym ('j, 'd, 'w) executor =
  "'j Step \<Rightarrow> nat \<Rightarrow> 'w \<Rightarrow> (string + 'd StepResult) \<times> 'w"

type_synonym ('d, 'w) analyzer =
  "'d StepResult \<Rightarrow> string \<Rightarrow> 'w \<Rightarrow> (string + 'd) \<times> 'w"

text \<open>\<^verbatim>\<open>analyzeFailed\<close>: the whole body sits in a \<^verbatim>\<open>try\<close>, so a failing diagnostic
  agent is swallowed. On success the diagnostic is stored in the step result, which is
  the object already pushed on the scenario's list.\<close>

definition analyzeFailed ::
  "('d, 'w) analyzer \<Rightarrow> 'd StepResult \<Rightarrow> 'j Scenario \<Rightarrow> 'w \<Rightarrow> 'd StepResult \<times> 'w" where
  "analyzeFailed analyzeFailure stepResult scenario w =
     (case analyzeFailure stepResult (name scenario) w of
        (Inr d, w') \<Rightarrow> (stepResult\<lparr>diagnostic := Some d\<rparr>, w')
      | (Inl msg, w') \<Rightarrow> (stepResult, w'))"

text \<open>The \<^verbatim>\<open>for\<close> loop of \<^verbatim>\<open>runScenario\<close>, from index \<open>i\<close>. The first component of
  the result is the message of an exception that left the loop.\<close>

function stepLoop ::
  "('j, 'd, 'w) executor \<Rightarrow> ('d, 'w) analyzer \<Rightarrow> 'j Scenario \<Rightarrow> nat \<Rightarrow>
   'd ScenarioResult \<Rightarrow> OverallStats \<Rightarrow> 'w \<Rightarrow>
   string option \<times> 'd ScenarioResult \<times> OverallStats \<times> 'w" where
  "stepLoop executeStep analyzeFailure scenario i scenarioResult stats w =
     (if i < length (steps scenario) then
        (let step = steps scenario ! i;
             stats1 = stats\<lparr>totalSteps := totalSteps stats + 1\<rparr>
         in case executeStep step i w of
              (Inl msg, w1) \<Rightarrow> (Some msg, scenarioResult, stats1, w1)
            | (Inr stepResult, w1) \<Rightarrow>
                if success stepResult then
                  stepLoop executeStep analyzeFailure scenario (i + 1)
                    (scenarioResult\<lparr>sr_steps := sr_steps scenarioResult @ [stepResult]\<rparr>)
                    (stats1\<lparr>passed := passed stats1 + 1\<rparr>) w1
                else
                  (case analyzeFailed analyzeFailure stepResult scenario w1 of
                     (stepResult', w2) \<Rightarrow>
                       (None,
                        scenarioResult\<lparr>sr_steps := sr_steps scenarioResult @ [stepResult'],
                                        sr_status := StFailed\<rparr>,
                        stats1\<lparr>failed := failed stats1 + 1\<rparr>, w2)))
      else (None, scenarioResult, stats, w))"
  by pat_completeness auto
termination
  by (relation "measure (\<lambda>(ex, an, sc, i, sr, st, w). length (steps sc) - i)") auto

declare stepLoop.simps [simp del]

text \<open>The object \<^verbatim>\<open>scenarioResult\<close> as \<^verbatim>\<open>runScenario\<close> creates it.\<close>

definition initialResult :: "'j Scenario \<Rightarrow> 'd ScenarioResult" where
  "initialResult sc = \<lparr>sr_name = name sc, sr_context = sc_context sc, sr_steps = [],
             sr_status = StRunning, sr_error = None\<rparr>"

definition runScenario ::
  "('j, 'd, 'w) executor \<Rightarrow> ('d, 'w) analyzer \<Rightarrow> 'j Scenario \<Rightarrow> OverallStats \<Rightarrow> 'w \<Rightarrow>
   'd ScenarioResult \<times> OverallStats \<times> 'w" where
  "runScenario executeStep analyzeFailure scenario stats w =
     (let scenarioResult = initialResult scenario
      in case stepLoop executeStep analyzeFailure scenario 0 scenarioResult stats w of
           (None, sr, stats', w') \<Rightarrow>
             ((if sr_status sr = StRunning then sr\<lparr>sr_status := StPassed\<rparr> else sr),
              stats', w')
         | (Some msg, sr, stats', w') \<Rightarrow>
             (sr\<lparr>sr_status := StError, sr_error := Some msg\<rparr>,
              stats'\<lparr>failed := failed stats' + 1\<rparr>, w'))"

text \<open>An executor that also records, in order, the index of every step it is invoked
  for; the diagnostic agent leaves the record alone. Used to state which steps ran.\<close>

definition logged :: "('j, 'd, 'w) executor \<Rightarrow> ('j, 'd, 'w \<times> nat list) executor" where
  "logged executeStep step i = (\<lambda>(w, calls).
     case executeStep step i w of (r, w') \<Rightarrow> (r, (w', calls @ [i])))"

definition unlogged :: "('d, 'w) analyzer \<Rightarrow> ('d, 'w \<times> nat list) analyzer" where
  "unlogged analyzeFailure r n = (\<lambda>(w, calls).
     case analyzeFailure r n w of (d, w') \<Rightarrow> (d, (w', calls)))"

text \<open>A three-step scenario and an executor whose second step fails, for the concrete runs
  below.\<close>

definition mkStep :: "string \<Rightarrow> string \<Rightarrow> unit Step" where
  "mkStep act descr =
     \<lparr>gherkinStep = descr, action = act, selector = Some [], data = (),
      description = descr, validation = None\<rparr>"

definition loginScenario :: "unit Scenario" where
  "loginScenario =
     \<lparr>name = ''Login'', sc_context = ''web'',
      steps = [mkStep ''navigate'' ''open the login page'',
               mkStep ''click'' ''click Sign In'',
               mkStep ''validate'' ''see Dashboard'']\<rparr>"

definition failSecond :: "(unit, string, unit) executor" where
  "failSecond step i w =
     (Inr \<lparr>success = (i \<noteq> 1), res_step = description step, res_action = action step,
           res_error = (if i = 1 then Some ''Could not click element'' else None),
           diagnostic = None\<rparr>, w)"

definition stubDiagnostic :: "(string, unit) analyzer" where
  "stubDiagnostic stepResult scenarioName w = (Inr ''API_ERROR'', w)"

definition noStats :: OverallStats where
  "noStats = \<lparr>totalFeatures = 0, totalScenarios = 0, totalSteps = 0, passed = 0, failed = 0\<rparr>"

section \<open>Strings as JavaScript uses them\<close>

text \<open>Strings are lists of characters; the text is taken to be ASCII, so that
  \<^verbatim>\<open>toLowerCase\<close>, \<^verbatim>\<open>\s\<close> and the \<^verbatim>\<open>i\<close> flag only concern ASCII letters and
  ASCII white space.\<close>

definition toLowerChar :: "char \<Rightarrow> char" where
  "toLowerChar c =
     (case map_of (zip ''ABCDEFGHIJKLMNOPQRSTUVWXYZ'' ''abcdefghijklmnopqrstuvwxyz'') c of
        Some l \<Rightarrow> l
      | None \<Rightarrow> c)"

definition toLowerCase :: "string \<Rightarrow> string" where
  "toLowerCase s = map toLowerChar s"

definition isSpace :: "char \<Rightarrow> bool" where
  "isSpace c = (c \<in> set [CHR 0x09, CHR 0x0A, CHR 0x0B, CHR 0x0C, CHR 0x0D, CHR '' ''])"

definition trim :: "string \<Rightarrow> string" where
  "trim s = rev (dropWhile isSpace (rev (dropWhile isSpace s)))"

text \<open>\<^verbatim>\<open>s.includes(sub)\<close>.\<close>

fun js_includes :: "string \<Rightarrow> string \<Rightarrow> bool" where
  "js_includes [] sub = (sub = [])"
| "js_includes (c # cs) sub = (prefix sub (c # cs) \<or> js_includes cs sub)"

text \<open>Decimal rendering of a number, as a template literal prints an integer.\<close>

definition digitChar :: "nat \<Rightarrow> char" where
  "digitChar d = ''0123456789'' ! d"

function showNat :: "nat \<Rightarrow> string" where
  "showNat n = (if n < 10 then [digitChar n] else showNat (n div 10) @ [digitChar (n mod 10)])"
  by pat_completeness auto
termination
  by (relation "measure id") auto

declare showNat.simps [simp del]

definition showInt :: "int \<Rightarrow> string" where
  "showInt i = (if i < 0 then CHR ''-'' # showNat (nat (- i)) else showNat (nat i))"

section \<open>JSON values\<close>

text \<open>The payload of a step and of a cache file is whatever \<^verbatim>\<open>JSON.parse\<close> returns.
  An object is the list of its own properties in the order of \<^verbatim>\<open>Object.keys\<close>, with
  distinct keys.\<close>

datatype json =
  JNull | JBool bool | JNum int | JStr string | JArr "json list" | JObj "(string \<times> json) list"

text \<open>Truthiness, \<^verbatim>\<open>typeof\<close> and \<^verbatim>\<open>String(v)\<close>. A number is an integer below
  \<open>10 ^ 21\<close> in absolute value, which \<^verbatim>\<open>String\<close> prints in full; fractions and the
  exponent form that JavaScript prints from \<open>10 ^ 21\<close> on are not covered.\<close>

fun truthy :: "json \<Rightarrow> bool" where
  "truthy JNull = False"
| "truthy (JBool b) = b"
| "truthy (JNum n) = (n \<noteq> 0)"
| "truthy (JStr s) = (s \<noteq> [])"
| "truthy (JArr xs) = True"
| "truthy (JObj kvs) = True"

fun joinWith :: "string \<Rightarrow> string list \<Rightarrow> string" where
  "joinWith sep [] = []"
| "joinWith sep [x] = x"
| "joinWith sep (x # y # ys) = x @ sep @ joinWith sep (y # ys)"

fun jsToString :: "json \<Rightarrow> string" where
  "jsToString JNull = ''null''"
| "jsToString (JBool b) = (if b then ''true'' else ''false'')"
| "jsToString (JNum n) = showInt n"
| "jsToString (JStr s) = s"
| "jsToString (JArr xs) =
     joinWith '','' (map (\<lambda>x. if x = JNull then [] else jsToString x) xs)"
| "jsToString (JObj kvs) = ''[object Object]''"

section \<open>GherkinAgent: the data\<close>

text \<open>The part of the Gherkin AST (\<^verbatim>\<open>Messages.Feature\<close>) the agent reads. Field names
  carry the prefix \<open>g_\<close>. An examples table without a header row has
  \<open>tableHeader = None\<close>; the rows of \<open>tableBody\<close> are the cell values.\<close>

record GExamples =
  tableHeader :: "string list option"
  tableBody :: "string list list"

record GStep =
  g_keyword :: string
  g_text :: string
  g_dataTable :: "string list list option"

record GScenario =
  g_name :: string
  g_steps :: "GStep list"
  g_examples :: "GExamples list"

datatype GChild = ChildScenario GScenario | ChildOther

record GFeature =
  f_name :: string
  f_description :: string
  f_children :: "GChild list"
  f_tags :: "string list"
  f_language :: string

text \<open>\<^verbatim>\<open>interface ExecutionPlan\<close>; \<^verbatim>\<open>description\<close> is \<open>plan_description\<close> and
  \<^verbatim>\<open>type\<close> is \<open>plan_type\<close> here. A plan built from an answer of the oracle, or read
  from a cache file, may hold no array under \<^verbatim>\<open>scenarios\<close>: then \<open>listed\<close> is false and
  \<open>scenarios\<close> is not read.\<close>

record Metadata =
  tags :: "string list"
  language :: string

record ExecutionPlan =
  feature :: string
  plan_description :: string
  scenarios :: "json Scenario list"
  plan_type :: string
  metadata :: Metadata
  listed :: bool

text \<open>What \<^verbatim>\<open>interpretWithAI\<close> returns: the parsed answer of the oracle, or the
  heuristic interpretation. The answer is typed \<^verbatim>\<open>any\<close>, so \<^verbatim>\<open>JSON.parse\<close> may deliver
  \<^verbatim>\<open>null\<close> (\<open>NullAnswer\<close>), or a value in which \<^verbatim>\<open>scenarios\<close> is no array, such as
  \<^verbatim>\<open>{}\<close> (\<open>Unlisted\<close>); \<open>i_scenarios\<close> is read only when the shape is \<open>Listed\<close>.
  The elements of the array are taken to be scenarios of the interface.\<close>

datatype AnswerShape = NullAnswer | Unlisted | Listed

record Interpretation =
  testType :: string
  i_scenarios :: "json Scenario list"
  i_shape :: AnswerShape

text \<open>A cache file: unreadable (reading or \<^verbatim>\<open>JSON.parse\<close> throws), or an entry.
  \<open>timestamp\<close> is \<^verbatim>\<open>new Date(cached.timestamp).getTime()\<close> in milliseconds, \<open>None\<close>
  when that is \<^verbatim>\<open>NaN\<close>; \<open>contentHash = None\<close> and \<open>plan = None\<close> stand for a missing
  or \<^verbatim>\<open>null\<close> field.\<close>

record CacheEntry =
  featureFile :: string
  contentHash :: "string option"
  timestamp :: "int option"
  plan :: "ExecutionPlan option"

datatype CacheFile = Unreadable | Entry CacheEntry

text \<open>The scenarios that \<^verbatim>\<open>buildInterpretationPrompt\<close> serialises into the request.\<close>

record PromptStep =
  p_keyword :: string
  p_text :: string
  p_dataTable :: "string list list option"

record PromptScenario =
  p_name :: string
  p_steps :: "PromptStep list"

text \<open>The request to the Reasoning Oracle: the prompt is a fixed text around the feature's
  name, its description and the scenarios.\<close>

record Prompt =
  prompt_feature :: string
  prompt_description :: string
  prompt_scenarios :: "PromptScenario list"

text \<open>The answer of \<^verbatim>\<open>openai.chat.completions.create\<close>: the call throws, or it returns
  the content of the first choice (\<open>None\<close> for \<^verbatim>\<open>null\<close>).\<close>

datatype OracleReply = CallFailed string | Reply "string option"

text \<open>Library functions the agent calls, taken as parameters: \<^verbatim>\<open>crypto\<close>'s MD5, the
  cache path built with \<^verbatim>\<open>path\<close> and \<^verbatim>\<open>path.basename\<close>, the Gherkin parser (\<open>Inl\<close> when it throws, the
  document's feature otherwise), \<^verbatim>\<open>JSON.parse\<close> on the oracle's content,
  \<^verbatim>\<open>s.replace(new RegExp(p, 'g'), r)\<close> as \<open>regExpReplace p r s\<close> (\<open>Inl\<close> when the
  pattern is no regular expression), and
  \<^verbatim>\<open>x.toString(36).substring(2, 8)\<close> on a value of \<^verbatim>\<open>Math.random()\<close>.\<close>

record Library =
  generateHash :: "string \<Rightarrow> string"
  getCacheFilePath :: "string \<Rightarrow> string"
  basename :: "string \<Rightarrow> string"
  gherkinParse :: "string \<Rightarrow> string + GFeature option"
  parseInterpretation :: "string \<Rightarrow> Interpretation option"
  regExpReplace :: "string \<Rightarrow> string \<Rightarrow> string \<Rightarrow> string + string"
  randomStr :: "real \<Rightarrow> string"

record GherkinAgentConfig =
  enableCache :: bool
  forceRegenerate :: bool

text \<open>Everything outside the agent: the feature files, the cache directory, whether a
  write to it succeeds, the successive readings of \<^verbatim>\<open>Date.now()\<close> and of
  \<^verbatim>\<open>Math.random()\<close>, and the oracle.\<close>

record World =
  files :: "string \<rightharpoonup> string"
  cacheFiles :: "string \<rightharpoonup> CacheFile"
  diskWritable :: bool
  times :: "nat \<Rightarrow> int"
  tick :: nat
  rands :: "nat \<Rightarrow> real"
  rtick :: nat
  reasoningOracle :: "Prompt \<Rightarrow> OracleReply"

definition dateNow :: "World \<Rightarrow> int \<times> World" where
  "dateNow w = (times w (tick w), w\<lparr>tick := tick w + 1\<rparr>)"

definition mathRandom :: "World \<Rightarrow> real \<times> World" where
  "mathRandom w = (rands w (rtick w), w\<lparr>rtick := rtick w + 1\<rparr>)"

section \<open>GherkinAgent: placeholder substitution\<close>

text \<open>A state-passing \<^verbatim>\<open>forEach\<close>/\<^verbatim>\<open>map\<close> that an exception leaves.\<close>

fun mapState :: "('a \<Rightarrow> 's \<Rightarrow> ('e + 'b) \<times> 's) \<Rightarrow> 'a list \<Rightarrow> 's \<Rightarrow> ('e + 'b list) \<times> 's" where
  "mapState f [] s = (Inr [], s)"
| "mapState f (x # xs) s =
     (case f x s of
        (Inl e, s') \<Rightarrow> (Inl e, s')
      | (Inr y, s') \<Rightarrow>
          (case mapState f xs s' of
             (Inl e, s'') \<Rightarrow> (Inl e, s'')
           | (Inr ys, s'') \<Rightarrow> (Inr (y # ys), s'')))"

text \<open>A literal pattern under the flags \<^verbatim>\<open>gi\<close>: \<^verbatim>\<open>pattern.test(s)\<close> is \<open>ciIncludes\<close>,
  \<^verbatim>\<open>s.replace(pattern, rep)\<close> is \<open>replaceAllCI\<close>. The replacement text goes through
  the \<^verbatim>\<open>$\<close> patterns of \<^verbatim>\<open>String.prototype.replace\<close> (there are no capture groups).\<close>

definition ciPrefix :: "string \<Rightarrow> string \<Rightarrow> bool" where
  "ciPrefix pat s = prefix (toLowerCase pat) (toLowerCase s)"

definition ciIncludes :: "string \<Rightarrow> string \<Rightarrow> bool" where
  "ciIncludes pat s = js_includes (toLowerCase s) (toLowerCase pat)"

fun getSubstitution :: "string \<Rightarrow> string \<Rightarrow> string \<Rightarrow> string \<Rightarrow> string" where
  "getSubstitution matched pre post (c # d # r) =
     (if c = CHR ''$'' \<and> d = CHR ''$'' then CHR ''$'' # getSubstitution matched pre post r
      else if c = CHR ''$'' \<and> d = CHR ''&'' then matched @ getSubstitution matched pre post r
      else if c = CHR ''$'' \<and> d = CHR 0x60 then pre @ getSubstitution matched pre post r
      else if c = CHR ''$'' \<and> d = CHR 0x27 then post @ getSubstitution matched pre post r
      else c # getSubstitution matched pre post (d # r))"
| "getSubstitution matched pre post r = r"

fun replaceGo :: "string \<Rightarrow> string \<Rightarrow> string \<Rightarrow> nat \<Rightarrow> string \<Rightarrow> string" where
  "replaceGo pat rep pre skip [] = []"
| "replaceGo pat rep pre skip (c # cs) =
     (if 0 < skip then replaceGo pat rep (pre @ [c]) (skip - 1) cs
      else if pat \<noteq> [] \<and> ciPrefix pat (c # cs) then
        getSubstitution (take (length pat) (c # cs)) pre (drop (length pat) (c # cs)) rep
          @ replaceGo pat rep (pre @ [c]) (length pat - 1) cs
      else c # replaceGo pat rep (pre @ [c]) 0 cs)"

definition replaceAllCI :: "string \<Rightarrow> string \<Rightarrow> string \<Rightarrow> string" where
  "replaceAllCI pat rep s = replaceGo pat rep [] 0 s"

definition emailPatterns :: "string list" where
  "emailPatterns = [''<email>'', ''<random_email>'', ''{{email}}'']"

definition domains :: "string list" where
  "domains = [''test.com'', ''example.com'', ''random.test'', ''qa.test'']"

text \<open>\<^verbatim>\<open>generateRandomEmail\<close>: one reading of the clock and two of \<^verbatim>\<open>Math.random()\<close>.
  An index outside the array reads \<^verbatim>\<open>undefined\<close>.\<close>

definition generateRandomEmail :: "Library \<Rightarrow> World \<Rightarrow> string \<times> World" where
  "generateRandomEmail lib w =
     (case dateNow w of (ts, w1) \<Rightarrow>
      case mathRandom w1 of (r1, w2) \<Rightarrow>
      case mathRandom w2 of (r2, w3) \<Rightarrow>
        (let idx = \<lfloor>r2 * real (length domains)\<rfloor>;
             domain = (if 0 \<le> idx \<and> idx < int (length domains) then domains ! nat idx
                       else ''undefined'')
         in (''user_'' @ randomStr lib r1 @ ''_'' @ showInt ts @ ''@'' @ domain, w3)))"

text \<open>The loop of \<^verbatim>\<open>replacePlaceholder\<close> over the patterns: the first pattern that
  matches is replaced, everywhere in the value, and the function returns.\<close>

fun replaceFirstMatching :: "Library \<Rightarrow> string list \<Rightarrow> string \<Rightarrow> World \<Rightarrow> string \<times> World" where
  "replaceFirstMatching lib [] v w = (v, w)"
| "replaceFirstMatching lib (pattern # ps) v w =
     (if ciIncludes pattern v then
        (case generateRandomEmail lib w of
           (randomEmail, w') \<Rightarrow> (replaceAllCI pattern randomEmail v, w'))
      else replaceFirstMatching lib ps v w)"

definition replacePlaceholder :: "Library \<Rightarrow> string \<Rightarrow> World \<Rightarrow> string \<times> World" where
  "replacePlaceholder lib v w = replaceFirstMatching lib emailPatterns v w"

text \<open>\<^verbatim>\<open>replacePlaceholder\<close> on a \<^verbatim>\<open>field.value\<close> that is no string: \<^verbatim>\<open>test\<close> converts
  it to a string; on a match \<^verbatim>\<open>value.replace\<close> is no function and the call throws.\<close>

definition replacePlaceholderAny :: "Library \<Rightarrow> json \<Rightarrow> World \<Rightarrow> (string + json) \<times> World" where
  "replacePlaceholderAny lib v w =
     (case v of
        JStr s \<Rightarrow> (case replacePlaceholder lib s w of (s', w') \<Rightarrow> (Inr (JStr s'), w'))
      | _ \<Rightarrow>
        if \<exists>pattern \<in> set emailPatterns. ciIncludes pattern (jsToString v) then
          (case generateRandomEmail lib w of
             (randomEmail, w') \<Rightarrow> (Inl ''value.replace is not a function'', w'))
        else (Inr v, w))"

text \<open>The body of \<^verbatim>\<open>Object.keys(step.data).forEach\<close> for one property value.\<close>

definition processField :: "Library \<Rightarrow> json \<Rightarrow> World \<Rightarrow> (string + json) \<times> World" where
  "processField lib field w =
     (case field of
        JObj kvs \<Rightarrow>
          (case map_of kvs ''value'' of
             Some v \<Rightarrow>
               if truthy v then
                 (case replacePlaceholderAny lib v w of
                    (Inl e, w') \<Rightarrow> (Inl e, w')
                  | (Inr v', w') \<Rightarrow>
                      (Inr (JObj (map (\<lambda>(k, x). if k = ''value'' then (k, v') else (k, x)) kvs)),
                       w'))
               else (Inr field, w)
           | None \<Rightarrow> (Inr field, w))
      | JStr s \<Rightarrow> (case replacePlaceholder lib s w of (s', w') \<Rightarrow> (Inr (JStr s'), w'))
      | _ \<Rightarrow> (Inr field, w))"

definition processData :: "Library \<Rightarrow> json \<Rightarrow> World \<Rightarrow> (string + json) \<times> World" where
  "processData lib d w =
     (if truthy d then
        (case d of
           JStr s \<Rightarrow> (case replacePlaceholder lib s w of (s', w') \<Rightarrow> (Inr (JStr s'), w'))
         | JObj kvs \<Rightarrow>
             (case mapState (\<lambda>(k, field) w0.
                      case processField lib field w0 of
                        (Inl e, w1) \<Rightarrow> (Inl e, w1)
                      | (Inr field', w1) \<Rightarrow> (Inr (k, field'), w1)) kvs w of
                (Inl e, w') \<Rightarrow> (Inl e, w')
              | (Inr kvs', w') \<Rightarrow> (Inr (JObj kvs'), w'))
         | JArr xs \<Rightarrow>
             (case mapState (processField lib) xs w of
                (Inl e, w') \<Rightarrow> (Inl e, w')
              | (Inr xs', w') \<Rightarrow> (Inr (JArr xs'), w'))
         | _ \<Rightarrow> (Inr d, w))
      else (Inr d, w))"

definition processStep :: "Library \<Rightarrow> json Step \<Rightarrow> World \<Rightarrow> (string + json Step) \<times> World" where
  "processStep lib step w =
     (case processData lib (data step) w of
        (Inl e, w') \<Rightarrow> (Inl e, w')
      | (Inr d, w') \<Rightarrow> (Inr (step\<lparr>data := d\<rparr>), w'))"

definition processScenario ::
  "Library \<Rightarrow> json Scenario \<Rightarrow> World \<Rightarrow> (string + json Scenario) \<times> World" where
  "processScenario lib scenario w =
     (case mapState (processStep lib) (steps scenario) w of
        (Inl e, w') \<Rightarrow> (Inl e, w')
      | (Inr ss, w') \<Rightarrow> (Inr (scenario\<lparr>steps := ss\<rparr>), w'))"

definition processDynamicPlaceholders ::
  "Library \<Rightarrow> ExecutionPlan \<Rightarrow> World \<Rightarrow> (string + ExecutionPlan) \<times> World" where
  "processDynamicPlaceholders lib p w =
     (if \<not> listed p
      then (Inl (''Cannot read properties of undefined (reading '' @
                 [CHR 0x27] @ ''forEach'' @ [CHR 0x27] @ '')''), w)
      else
        (case mapState (processScenario lib) (scenarios p) w of
           (Inl e, w') \<Rightarrow> (Inl e, w')
         | (Inr scs, w') \<Rightarrow> (Inr (p\<lparr>scenarios := scs\<rparr>), w')))"







section \<open>GherkinAgent: the heuristic interpretation\<close>

definition guessAction :: "string \<Rightarrow> string \<Rightarrow> string" where
  "guessAction kw txt =
     (let lowerText = toLowerCase txt in
      if trim kw = ''Given'' then
        (if js_includes lowerText ''navig'' \<or> js_includes lowerText ''visit''
            \<or> js_includes lowerText ''open''
         then ''navigate'' else ''setup'')
      else if trim kw = ''When'' then
        (if js_includes lowerText ''click'' \<or> js_includes lowerText ''press'' then ''click''
         else if js_includes lowerText ''type'' \<or> js_includes lowerText ''enter''
            \<or> js_includes lowerText ''fill'' then ''type''
         else if js_includes lowerText ''select'' then ''select''
         else ''action'')
      else if trim kw = ''Then'' then ''validate''
      else ''action'')"

text \<open>The first match of \<^verbatim>\<open>/q([^q]+)q/\<close> for a quote character \<open>q\<close>: its group.\<close>

fun firstQuoted :: "char \<Rightarrow> string \<Rightarrow> string option" where
  "firstQuoted q [] = None"
| "firstQuoted q (c # cs) =
     (if c = q \<and> takeWhile (\<lambda>x. x \<noteq> q) cs \<noteq> [] \<and> dropWhile (\<lambda>x. x \<noteq> q) cs \<noteq> []
      then Some (takeWhile (\<lambda>x. x \<noteq> q) cs)
      else firstQuoted q cs)"

text \<open>A match of \<^verbatim>\<open>(https?:\/\/[^\s]+|\/C+)\<close> at the start of the text, where \<open>C\<close> is the
  character class of the second alternative, and the first match anywhere.\<close>

definition urlAt :: "(char \<Rightarrow> bool) \<Rightarrow> string \<Rightarrow> string option" where
  "urlAt cls s =
     (if prefix ''http://'' s \<and> takeWhile (\<lambda>c. \<not> isSpace c) (drop 7 s) \<noteq> []
      then Some (''http://'' @ takeWhile (\<lambda>c. \<not> isSpace c) (drop 7 s))
      else if prefix ''https://'' s \<and> takeWhile (\<lambda>c. \<not> isSpace c) (drop 8 s) \<noteq> []
      then Some (''https://'' @ takeWhile (\<lambda>c. \<not> isSpace c) (drop 8 s))
      else if prefix ''/'' s \<and> takeWhile cls (drop 1 s) \<noteq> []
      then Some (''/'' @ takeWhile cls (drop 1 s))
      else None)"

fun firstUrl :: "(char \<Rightarrow> bool) \<Rightarrow> string \<Rightarrow> string option" where
  "firstUrl cls [] = None"
| "firstUrl cls (c # cs) =
     (case urlAt cls (c # cs) of Some m \<Rightarrow> Some m | None \<Rightarrow> firstUrl cls cs)"

definition guessSelector :: "string \<Rightarrow> string option" where
  "guessSelector txt =
     (case firstQuoted (CHR 0x22) txt of
        Some quoted \<Rightarrow> Some quoted
      | None \<Rightarrow>
          (case firstQuoted (CHR 0x27) txt of
             Some singleQuoted \<Rightarrow> Some singleQuoted
           | None \<Rightarrow> firstUrl (\<lambda>c. \<not> isSpace c) txt))"

text \<open>All matches of \<^verbatim>\<open>/"([^"]+)"|'([^']+)'/g\<close>, from left to right. After a match
  the search goes on behind it, which the counter \<open>skip\<close> does.\<close>

fun allQuoted :: "nat \<Rightarrow> string \<Rightarrow> string list" where
  "allQuoted skip [] = []"
| "allQuoted skip (c # cs) =
     (if 0 < skip then allQuoted (skip - 1) cs
      else if (c = CHR 0x22 \<or> c = CHR 0x27) \<and> takeWhile (\<lambda>x. x \<noteq> c) cs \<noteq> []
              \<and> dropWhile (\<lambda>x. x \<noteq> c) cs \<noteq> []
      then (c # takeWhile (\<lambda>x. x \<noteq> c) cs @ [c])
             # allQuoted (Suc (length (takeWhile (\<lambda>x. x \<noteq> c) cs))) cs
      else allQuoted 0 cs)"

definition isPathChar :: "char \<Rightarrow> bool" where
  "isPathChar c =
     (c \<in> set ''abcdefghijklmnopqrstuvwxyzABCDEFGHIJKLMNOPQRSTUVWXYZ0123456789/_-'')"

definition extractData :: "string \<Rightarrow> json" where
  "extractData txt =
     (let matches = allQuoted 0 txt in
      if matches \<noteq> [] then
        JArr (map (\<lambda>m. JStr (filter (\<lambda>c. c \<noteq> CHR 0x22 \<and> c \<noteq> CHR 0x27) m)) matches)
      else
        (case firstUrl isPathChar txt of
           Some urlPattern \<Rightarrow> JStr urlPattern
         | None \<Rightarrow> JNull))"

definition childScenarios :: "GFeature \<Rightarrow> GScenario list" where
  "childScenarios feat =
     concat (map (\<lambda>child. case child of ChildScenario sc \<Rightarrow> [sc] | ChildOther \<Rightarrow> [])
               (f_children feat))"

definition basicInterpretation :: "GFeature \<Rightarrow> Interpretation" where
  "basicInterpretation feat =
     \<lparr>testType = ''web'',
      i_scenarios =
        map (\<lambda>scenario.
               \<lparr>name = g_name scenario, sc_context = ''web'',
                steps =
                  map (\<lambda>step.
                         \<lparr>gherkinStep = g_keyword step @ g_text step,
                          action = guessAction (g_keyword step) (g_text step),
                          selector = guessSelector (g_text step),
                          data = extractData (g_text step),
                          description = g_text step,
                          validation = None\<rparr>)
                      (g_steps scenario)\<rparr>)
            (childScenarios feat),
      i_shape = Listed\<rparr>"

section \<open>The heuristic in the words of the specification\<close>

text \<open>The specification describes the heuristic as a mapping from the keyword to the
  kind of action, with the quoted substrings as payload. \<open>keywordMapped\<close> says which
  kinds a keyword can be mapped to. \<open>quotedSubstrings\<close> are the quoted substrings of a
  text from left to right, without their quotes: a quote character, a non-empty text
  without this character, and the same character again; the search goes on behind the
  closing quote.\<close>

definition isQuote :: "char \<Rightarrow> bool" where
  "isQuote c = (c = CHR 0x22 \<or> c = CHR 0x27)"




section \<open>GherkinAgent: the request to the oracle\<close>

text \<open>A \<^verbatim>\<open>map\<close> that an exception leaves.\<close>

fun mapE :: "('a \<Rightarrow> 'e + 'b) \<Rightarrow> 'a list \<Rightarrow> 'e + 'b list" where
  "mapE f [] = Inr []"
| "mapE f (x # xs) =
     (case f x of
        Inl e \<Rightarrow> Inl e
      | Inr y \<Rightarrow> (case mapE f xs of Inl e \<Rightarrow> Inl e | Inr ys \<Rightarrow> Inr (y # ys)))"

text \<open>\<^verbatim>\<open>paramMap\<close> is a JavaScript object: assigning to an existing key keeps the key's
  place, \<^verbatim>\<open>__proto__\<close> creates no property, and \<^verbatim>\<open>Object.keys\<close> lists the keys that
  are array indices first, in ascending order, then the others in the order of their
  creation.\<close>

definition digitVal :: "char \<Rightarrow> nat" where
  "digitVal c = length (takeWhile (\<lambda>d. d \<noteq> c) ''0123456789'')"

definition readNat :: "string \<Rightarrow> nat" where
  "readNat s = foldl (\<lambda>n c. 10 * n + digitVal c) 0 s"

definition isArrayIndex :: "string \<Rightarrow> bool" where
  "isArrayIndex k =
     (k \<noteq> [] \<and> (\<forall>c \<in> set k. c \<in> set ''0123456789'') \<and> (k = ''0'' \<or> hd k \<noteq> CHR ''0'')
      \<and> readNat k < 4294967295)"

definition setProp :: "string \<Rightarrow> 'v \<Rightarrow> (string \<times> 'v) list \<Rightarrow> (string \<times> 'v) list" where
  "setProp k v m =
     (if k = ''__proto__'' then m
      else if k \<in> set (map fst m) then map (\<lambda>(k', v'). if k' = k then (k', v) else (k', v')) m
      else m @ [(k, v)])"

definition objectKeys :: "(string \<times> 'v) list \<Rightarrow> string list" where
  "objectKeys m =
     sort_key readNat (filter isArrayIndex (map fst m))
       @ filter (\<lambda>k. \<not> isArrayIndex k) (map fst m)"

text \<open>\<^verbatim>\<open>headers.forEach((header, i) => paramMap[header] = values[i])\<close>; a row shorter than
  the header reads \<^verbatim>\<open>undefined\<close>, here \<open>None\<close>.\<close>

definition buildParamMap :: "string list \<Rightarrow> string list \<Rightarrow> (string \<times> string option) list" where
  "buildParamMap headers vals =
     foldl (\<lambda>m (header, i). setProp header (if i < length vals then Some (vals ! i) else None) m)
       [] (zip headers [0..<length headers])"

text \<open>The loop \<^verbatim>\<open>Object.keys(paramMap).forEach\<close> on one step text.\<close>

fun expandParams ::
  "Library \<Rightarrow> (string \<times> string option) list \<Rightarrow> string list \<Rightarrow> string \<Rightarrow> string + string" where
  "expandParams lib paramMap [] expandedText = Inr expandedText"
| "expandParams lib paramMap (param # ps) expandedText =
     (case regExpReplace lib (''<'' @ param @ ''>'')
             (case map_of paramMap param of Some (Some v) \<Rightarrow> v | _ \<Rightarrow> ''undefined'')
             expandedText of
        Inl e \<Rightarrow> Inl e
      | Inr t \<Rightarrow> expandParams lib paramMap ps t)"

definition plainStep :: "GStep \<Rightarrow> PromptStep" where
  "plainStep step =
     \<lparr>p_keyword = trim (g_keyword step), p_text = g_text step, p_dataTable = g_dataTable step\<rparr>"

definition expandRow ::
  "Library \<Rightarrow> GScenario \<Rightarrow> string list \<Rightarrow> nat \<times> string list \<Rightarrow> string + PromptScenario" where
  "expandRow lib scenario headers = (\<lambda>(index, vals).
     let paramMap = buildParamMap headers vals in
     case mapE (\<lambda>step.
                  case expandParams lib paramMap (objectKeys paramMap) (g_text step) of
                    Inl e \<Rightarrow> Inl e
                  | Inr t \<Rightarrow> Inr ((plainStep step)\<lparr>p_text := t\<rparr>))
            (g_steps scenario) of
       Inl e \<Rightarrow> Inl e
     | Inr expandedSteps \<Rightarrow>
         Inr \<lparr>p_name = g_name scenario @ '' (Example '' @ showNat (index + 1) @ '')'',
              p_steps = expandedSteps\<rparr>)"

definition expandTable ::
  "Library \<Rightarrow> GScenario \<Rightarrow> GExamples \<Rightarrow> string + PromptScenario list" where
  "expandTable lib scenario exampleTable =
     (case tableHeader exampleTable of
        None \<Rightarrow> Inr []
      | Some headers \<Rightarrow>
          mapE (expandRow lib scenario headers)
            (zip [0..<length (tableBody exampleTable)] (tableBody exampleTable)))"

definition promptScenariosOf :: "Library \<Rightarrow> GScenario \<Rightarrow> string + PromptScenario list" where
  "promptScenariosOf lib scenario =
     (if g_examples scenario \<noteq> [] then
        (case mapE (expandTable lib scenario) (g_examples scenario) of
           Inl e \<Rightarrow> Inl e
         | Inr xss \<Rightarrow> Inr (concat xss))
      else Inr [\<lparr>p_name = g_name scenario, p_steps = map plainStep (g_steps scenario)\<rparr>])"

definition buildInterpretationPrompt :: "Library \<Rightarrow> GFeature \<Rightarrow> string + Prompt" where
  "buildInterpretationPrompt lib feat =
     (case mapE (promptScenariosOf lib) (childScenarios feat) of
        Inl e \<Rightarrow> Inl e
      | Inr xss \<Rightarrow>
          Inr \<lparr>prompt_feature = f_name feat, prompt_description = f_description feat,
               prompt_scenarios = concat xss\<rparr>)"

section \<open>GherkinAgent: compiling a feature file\<close>

text \<open>\<^verbatim>\<open>interpretWithAI\<close>: the prompt is built outside the \<^verbatim>\<open>try\<close>; everything after
  it is inside, and the \<^verbatim>\<open>catch\<close> returns the heuristic interpretation.\<close>

definition interpretWithAI :: "Library \<Rightarrow> GFeature \<Rightarrow> World \<Rightarrow> string + Interpretation" where
  "interpretWithAI lib feat w =
     (case buildInterpretationPrompt lib feat of
        Inl e \<Rightarrow> Inl e
      | Inr prompt \<Rightarrow>
          (case reasoningOracle w prompt of
             CallFailed msg \<Rightarrow> Inr (basicInterpretation feat)
           | Reply None \<Rightarrow> Inr (basicInterpretation feat)
           | Reply (Some content) \<Rightarrow>
               if content = [] then Inr (basicInterpretation feat)
               else (case parseInterpretation lib content of
                       None \<Rightarrow> Inr (basicInterpretation feat)
                     | Some parsed \<Rightarrow> Inr parsed)))"

definition maxAge :: int where
  "maxAge = 7 * 24 * 60 * 60 * 1000"

text \<open>\<^verbatim>\<open>getCachedPlan\<close>. A comparison with \<^verbatim>\<open>NaN\<close> is false, so an entry whose
  timestamp is no date does not expire.\<close>

definition getCachedPlan ::
  "Library \<Rightarrow> string \<Rightarrow> string \<Rightarrow> World \<Rightarrow> ExecutionPlan option \<times> World" where
  "getCachedPlan lib featureFilePath content w =
     (case cacheFiles w (getCacheFilePath lib featureFilePath) of
        None \<Rightarrow> (None, w)
      | Some Unreadable \<Rightarrow> (None, w)
      | Some (Entry cached) \<Rightarrow>
          if contentHash cached \<noteq> Some (generateHash lib content) then (None, w)
          else
            (case dateNow w of (now, w1) \<Rightarrow>
               if (case timestamp cached of None \<Rightarrow> False | Some ts \<Rightarrow> now - ts > maxAge)
               then (None, w1)
               else (plan cached, w1)))"

text \<open>\<^verbatim>\<open>saveToCache\<close>: a failing write is caught and changes nothing.\<close>

definition saveToCache :: "Library \<Rightarrow> string \<Rightarrow> string \<Rightarrow> ExecutionPlan \<Rightarrow> World \<Rightarrow> World" where
  "saveToCache lib featureFilePath content p w =
     (case dateNow w of (now, w1) \<Rightarrow>
        if diskWritable w1 then
          w1\<lparr>cacheFiles := (cacheFiles w1)(getCacheFilePath lib featureFilePath \<mapsto>
                 Entry \<lparr>featureFile = basename lib featureFilePath,
                        contentHash = Some (generateHash lib content),
                        timestamp = Some now, plan = Some p\<rparr>)\<rparr>
        else w1)"

definition parseGherkinFile :: "Library \<Rightarrow> string \<Rightarrow> string + GFeature" where
  "parseGherkinFile lib content =
     (case gherkinParse lib content of
        Inl msg \<Rightarrow> Inl (''Failed to parse Gherkin: '' @ msg)
      | Inr None \<Rightarrow> Inl ''Failed to parse Gherkin: No feature found in Gherkin document''
      | Inr (Some feat) \<Rightarrow> Inr feat)"

text \<open>The cache lookup at the head of \<^verbatim>\<open>parseAndPlan\<close>.\<close>

definition lookupCache ::
  "GherkinAgentConfig \<Rightarrow> Library \<Rightarrow> string \<Rightarrow> string \<Rightarrow> World \<Rightarrow> ExecutionPlan option \<times> World" where
  "lookupCache cfg lib featureFilePath content w =
     (if enableCache cfg \<and> \<not> forceRegenerate cfg
      then getCachedPlan lib featureFilePath content w
      else (None, w))"

text \<open>The plan \<^verbatim>\<open>parseAndPlan\<close> assembles from the interpretation.\<close>

definition assemblePlan :: "GFeature \<Rightarrow> Interpretation \<Rightarrow> ExecutionPlan" where
  "assemblePlan feat executionPlan =
     \<lparr>feature = f_name feat, plan_description = f_description feat,
      scenarios = i_scenarios executionPlan, plan_type = testType executionPlan,
      metadata = \<lparr>tags = f_tags feat,
                  language = (if f_language feat = [] then ''en'' else f_language feat)\<rparr>,
      listed = (i_shape executionPlan = Listed)\<rparr>"

text \<open>\<^verbatim>\<open>parseAndPlan\<close>. \<^verbatim>\<open>generatePlaywrightCode\<close> writes a \<^verbatim>\<open>.spec.js\<close> file beside the
  cache within a \<^verbatim>\<open>try\<close> that catches everything; it changes neither the plan nor a
  cache file and is left out. Reading \<^verbatim>\<open>executionPlan.scenarios\<close> throws when the answer
  is \<^verbatim>\<open>null\<close>; a plan without an array of scenarios is saved to the cache before
  \<^verbatim>\<open>processDynamicPlaceholders\<close> throws on it.\<close>

definition parseAndPlan ::
  "GherkinAgentConfig \<Rightarrow> Library \<Rightarrow> string \<Rightarrow> World \<Rightarrow> (string + ExecutionPlan) \<times> World" where
  "parseAndPlan cfg lib featureFilePath w =
     (case files w featureFilePath of
        None \<Rightarrow> (Inl ''ENOENT: no such file or directory'', w)
      | Some content \<Rightarrow>
          (case lookupCache cfg lib featureFilePath content w of
             (Some cachedPlan, w1) \<Rightarrow> processDynamicPlaceholders lib cachedPlan w1
           | (None, w1) \<Rightarrow>
               (case parseGherkinFile lib content of
                  Inl e \<Rightarrow> (Inl e, w1)
                | Inr feat \<Rightarrow>
                    (case interpretWithAI lib feat w1 of
                       Inl e \<Rightarrow> (Inl e, w1)
                     | Inr executionPlan \<Rightarrow>
                         if i_shape executionPlan = NullAnswer
                         then (Inl (''Cannot read properties of null (reading '' @
                                    [CHR 0x27] @ ''scenarios'' @ [CHR 0x27] @ '')''), w1)
                         else
                           (let p = assemblePlan feat executionPlan;
                                w2 = (if enableCache cfg
                                      then saveToCache lib featureFilePath content p w1 else w1)
                            in processDynamicPlaceholders lib p w2)))))"

section \<open>Scenario outlines: the expected expansion\<close>

















section \<open>WebExecutorAgent: the browser and the Vision Oracle\<close>

text \<open>\<^verbatim>\<open>interface VisionResult\<close>, as \<^verbatim>\<open>JSON.parse\<close> delivers it; an absent field is
  \<open>None\<close>. The field \<^verbatim>\<open>selector\<close> is \<open>v_selector\<close> here; \<^verbatim>\<open>fields\<close>, here \<open>v_fields\<close>, holds
  the triples of label, selector and value.\<close>

record VisionResult =
  strategy :: "string option"
  v_selector :: "string option"
  dropdownSelector :: "string option"
  actualText :: "string option"
  reasoning :: "string option"
  confidence :: "string option"
  v_fields :: "(string \<times> string \<times> string) list option"
  found :: "bool option"

text \<open>The prompt of \<^verbatim>\<open>executeActionWithVision\<close>: one of four fixed texts around the
  instruction and the data, or the empty prompt for any other action type.\<close>

datatype VisionPrompt =
  ClickPrompt string | TypePrompt string json | SelectPrompt string json
  | ValidatePrompt string | EmptyPrompt

text \<open>What the agent calls outside itself, threaded through a browser state \<open>'b\<close>. A
  Playwright call that rejects returns its message (\<open>Some msg\<close> or \<open>Inl msg\<close>). A locator is
  named by its selector, which is \<open>None\<close> when the oracle's answer has none.
  \<open>locatorFirst\<close> is \<^verbatim>\<open>page.locator(sel).first()\<close>, which creates the locator
  without touching the page: \<open>None\<close> when it returns, the message when it throws;
  \<open>waitFor sel state timeout\<close>, \<open>elementClick\<close>, \<open>evaluateClick\<close> and
  \<open>scrollIntoViewIfNeeded\<close> act on a locator; \<open>locatorAll\<close> is the length of
  \<^verbatim>\<open>locator(sel).all()\<close>; \<open>elementText\<close> and \<open>bodyText\<close> are
  \<^verbatim>\<open>textContent\<close> of a locator and of \<^verbatim>\<open>body\<close>; \<open>waitForNavigation\<close> is the
  \<^verbatim>\<open>Promise.race\<close> after a click. \<open>smartWait\<close> and \<open>waitForAngular\<close> are the
  agent's methods of these names, which catch every exception, and so is
  \<open>collectDiagnostics\<close>. \<open>visionCall\<close> is the request
  to the Vision Oracle with the prompt and the image, \<open>parseVision\<close> is \<^verbatim>\<open>JSON.parse\<close>
  (\<open>None\<close> when it throws). The parsed value is taken to be an object; a reply that
  parses to \<^verbatim>\<open>null\<close>, on which the source throws a \<^verbatim>\<open>TypeError\<close> when it logs the
  selector, is not covered.\<close>

record 'b Browser =
  pageScreenshot :: "'b \<Rightarrow> (string + string) \<times> 'b"
  visionCall :: "VisionPrompt \<Rightarrow> string \<Rightarrow> 'b \<Rightarrow> OracleReply \<times> 'b"
  parseVision :: "string \<Rightarrow> VisionResult option"
  locatorFirst :: "string option \<Rightarrow> string option"
  waitFor :: "string option \<Rightarrow> string \<Rightarrow> nat \<Rightarrow> 'b \<Rightarrow> string option \<times> 'b"
  locatorAll :: "string \<Rightarrow> 'b \<Rightarrow> (string + nat) \<times> 'b"
  scrollIntoViewIfNeeded :: "string option \<Rightarrow> 'b \<Rightarrow> string option \<times> 'b"
  waitForTimeout :: "nat \<Rightarrow> 'b \<Rightarrow> string option \<times> 'b"
  elementClick :: "string option \<Rightarrow> 'b \<Rightarrow> string option \<times> 'b"
  evaluateClick :: "string option \<Rightarrow> 'b \<Rightarrow> string option \<times> 'b"
  isVisible :: "string \<Rightarrow> 'b \<Rightarrow> (string + bool) \<times> 'b"
  elementText :: "string \<Rightarrow> 'b \<Rightarrow> (string + string option) \<times> 'b"
  bodyText :: "'b \<Rightarrow> (string + string option) \<times> 'b"
  smartWait :: "'b \<Rightarrow> 'b"
  waitForAngular :: "'b \<Rightarrow> 'b"
  waitForNavigation :: "'b \<Rightarrow> string option \<times> 'b"
  randomDelay :: "nat \<Rightarrow> nat \<Rightarrow> 'b \<Rightarrow> nat \<times> 'b"
  collectDiagnostics :: "'b \<Rightarrow> 'b"

section \<open>WebExecutorAgent: asking the Vision Oracle\<close>

text \<open>The first occurrence of \<open>sub\<close> in a text: what stands before it and what after.\<close>

fun findSub :: "string \<Rightarrow> string \<Rightarrow> (string \<times> string) option" where
  "findSub sub [] = (if sub = [] then Some ([], []) else None)"
| "findSub sub (c # cs) =
     (if prefix sub (c # cs) then Some ([], drop (length sub) (c # cs))
      else (case findSub sub cs of
              None \<Rightarrow> None
            | Some (before, after) \<Rightarrow> Some (c # before, after)))"

definition fenceOpen :: string where
  "fenceOpen = [CHR 0x60, CHR 0x60, CHR 0x60, CHR ''j'', CHR ''s'', CHR ''o'', CHR ''n'', CHR 0x0A]"

definition fenceClose :: string where
  "fenceClose = [CHR 0x0A, CHR 0x60, CHR 0x60, CHR 0x60]"

text \<open>The match of the fence pattern (opening fence, shortest text, closing fence): the
  whole match and its group. The match of \<^verbatim>\<open>/\{[\s\S]*\}/\<close>: from the first opening
  brace to the last closing brace.\<close>

definition fencedMatch :: "string \<Rightarrow> (string \<times> string) option" where
  "fencedMatch content =
     (case findSub fenceOpen content of
        None \<Rightarrow> None
      | Some (before, rest) \<Rightarrow>
          (case findSub fenceClose rest of
             None \<Rightarrow> None
           | Some (inner, after) \<Rightarrow> Some (fenceOpen @ inner @ fenceClose, inner)))"

definition braceMatch :: "string \<Rightarrow> string option" where
  "braceMatch content =
     (let fromBrace = dropWhile (\<lambda>c. c \<noteq> CHR ''{'') content;
          toBrace = rev (dropWhile (\<lambda>c. c \<noteq> CHR ''}'') (rev fromBrace))
      in if toBrace = [] then None else Some toBrace)"

text \<open>\<^verbatim>\<open>jsonMatch ? (jsonMatch[1] || jsonMatch[0]) : content\<close>.\<close>

definition unwrapJson :: "string \<Rightarrow> string" where
  "unwrapJson content =
     (case fencedMatch content of
        Some (whole, inner) \<Rightarrow> if inner \<noteq> [] then inner else whole
      | None \<Rightarrow> (case braceMatch content of Some whole \<Rightarrow> whole | None \<Rightarrow> content))"

definition visionPrompt :: "string \<Rightarrow> string \<Rightarrow> json \<Rightarrow> VisionPrompt" where
  "visionPrompt actionType instruction dataToType =
     (if actionType = ''click'' then ClickPrompt instruction
      else if actionType = ''type'' then TypePrompt instruction dataToType
      else if actionType = ''select'' then SelectPrompt instruction dataToType
      else if actionType = ''validate'' then ValidatePrompt instruction
      else EmptyPrompt)"

text \<open>What \<^verbatim>\<open>executeActionWithVision\<close> does with the oracle's reply: the content must
  be there, is unwrapped and parsed; \<open>Inl\<close> is the message of the error thrown.\<close>

definition readReply :: "'b Browser \<Rightarrow> OracleReply \<Rightarrow> string + VisionResult" where
  "readReply br reply =
     (case reply of
        CallFailed msg \<Rightarrow> Inl msg
      | Reply None \<Rightarrow> Inl ''No content in Vision AI response''
      | Reply (Some content) \<Rightarrow>
          if content = [] then Inl ''No content in Vision AI response''
          else (case parseVision br (unwrapJson content) of
                  None \<Rightarrow> Inl ''Vision AI returned invalid JSON''
                | Some visionResult \<Rightarrow> Inr visionResult))"

text \<open>\<^verbatim>\<open>executeActionWithVision\<close>. The outer \<^verbatim>\<open>catch\<close> logs and rethrows.\<close>

definition executeActionWithVision ::
  "'b Browser \<Rightarrow> string \<Rightarrow> string \<Rightarrow> json \<Rightarrow> 'b \<Rightarrow> (string + VisionResult) \<times> 'b" where
  "executeActionWithVision br instruction actionType dataToType b =
     (case pageScreenshot br b of
        (Inl err, b1) \<Rightarrow> (Inl err, b1)
      | (Inr shot, b1) \<Rightarrow>
          (case visionCall br (visionPrompt actionType instruction dataToType) shot b1 of
             (reply, b2) \<Rightarrow> (readReply br reply, b2)))"

text \<open>A browser that also records, in order, every call the agent makes: the state is
  paired with the list of the calls so far.\<close>

datatype event =
  EvVisible string "string + bool" | EvPause nat | EvScreenshot
  | EvVision VisionPrompt OracleReply
  | EvWaitFor "string option" string nat | EvCount string | EvScroll "string option"
  | EvClick "string option" | EvJsClick "string option" | EvText "string option"
  | EvSmartWait | EvAngular | EvNavigation | EvDelay nat nat | EvDiagnostics

definition recording :: "'b Browser \<Rightarrow> ('b \<times> event list) Browser" where
  "recording br =
     \<lparr>pageScreenshot = (\<lambda>(b, evs). case pageScreenshot br b of
                          (r, b') \<Rightarrow> (r, (b', evs @ [EvScreenshot]))),
      visionCall = (\<lambda>p shot (b, evs). case visionCall br p shot b of
                          (r, b') \<Rightarrow> (r, (b', evs @ [EvVision p r]))),
      parseVision = parseVision br,
      locatorFirst = locatorFirst br,
      waitFor = (\<lambda>sel st t (b, evs). case waitFor br sel st t b of
                          (r, b') \<Rightarrow> (r, (b', evs @ [EvWaitFor sel st t]))),
      locatorAll = (\<lambda>sel (b, evs). case locatorAll br sel b of
                          (r, b') \<Rightarrow> (r, (b', evs @ [EvCount sel]))),
      scrollIntoViewIfNeeded = (\<lambda>sel (b, evs). case scrollIntoViewIfNeeded br sel b of
                          (r, b') \<Rightarrow> (r, (b', evs @ [EvScroll sel]))),
      waitForTimeout = (\<lambda>ms (b, evs). case waitForTimeout br ms b of
                          (r, b') \<Rightarrow> (r, (b', evs @ [EvPause ms]))),
      elementClick = (\<lambda>sel (b, evs). case elementClick br sel b of
                          (r, b') \<Rightarrow> (r, (b', evs @ [EvClick sel]))),
      evaluateClick = (\<lambda>sel (b, evs). case evaluateClick br sel b of
                          (r, b') \<Rightarrow> (r, (b', evs @ [EvJsClick sel]))),
      isVisible = (\<lambda>sel (b, evs). case isVisible br sel b of
                          (r, b') \<Rightarrow> (r, (b', evs @ [EvVisible sel r]))),
      elementText = (\<lambda>sel (b, evs). case elementText br sel b of
                          (r, b') \<Rightarrow> (r, (b', evs @ [EvText (Some sel)]))),
      bodyText = (\<lambda>(b, evs). case bodyText br b of (r, b') \<Rightarrow> (r, (b', evs @ [EvText None]))),
      smartWait = (\<lambda>(b, evs). (smartWait br b, evs @ [EvSmartWait])),
      waitForAngular = (\<lambda>(b, evs). (waitForAngular br b, evs @ [EvAngular])),
      waitForNavigation = (\<lambda>(b, evs). case waitForNavigation br b of
                          (r, b') \<Rightarrow> (r, (b', evs @ [EvNavigation]))),
      randomDelay = (\<lambda>lo hi (b, evs). case randomDelay br lo hi b of
                          (r, b') \<Rightarrow> (r, (b', evs @ [EvDelay lo hi]))),
      collectDiagnostics = (\<lambda>(b, evs). (collectDiagnostics br b, evs @ [EvDiagnostics]))\<rparr>"

section \<open>WebExecutorAgent: clicking\<close>

definition quoted :: "string \<Rightarrow> string" where
  "quoted s = CHR 0x22 # s @ [CHR 0x22]"

definition apostrophed :: "string \<Rightarrow> string" where
  "apostrophed s = CHR 0x27 # s @ [CHR 0x27]"

text \<open>The group of the first match of \<^verbatim>\<open>/['"]([^'"]+)['"]/\<close>.\<close>

fun quotedText :: "string \<Rightarrow> string option" where
  "quotedText [] = None"
| "quotedText (c # cs) =
     (if isQuote c \<and> takeWhile (\<lambda>x. \<not> isQuote x) cs \<noteq> [] \<and>
         dropWhile (\<lambda>x. \<not> isQuote x) cs \<noteq> []
      then Some (takeWhile (\<lambda>x. \<not> isQuote x) cs)
      else quotedText cs)"

text \<open>\<^verbatim>\<open>s.replace(sub, '')\<close> with a string pattern: the first occurrence goes.\<close>

definition removeFirst :: "string \<Rightarrow> string \<Rightarrow> string" where
  "removeFirst sub s =
     (case findSub sub s of None \<Rightarrow> s | Some (before, after) \<Rightarrow> before @ after)"

definition textAlternatives :: "string \<Rightarrow> string list" where
  "textAlternatives sel =
     (let textContent = (case quotedText sel of
                           Some t \<Rightarrow> t
                         | None \<Rightarrow> removeFirst ''text='' sel)
      in [''button:has-text('' @ apostrophed textContent @ '')'',
          ''[role='' @ apostrophed ''button'' @ '']:has-text('' @ apostrophed textContent @ '')'',
          ''a:has-text('' @ apostrophed textContent @ '')''])"

definition genericSelectors :: "string list" where
  "genericSelectors =
     [''button:visible'', ''[role='' @ quoted ''button'' @ '']:visible'', ''a.button:visible'']"

text \<open>The two \<^verbatim>\<open>for\<close> loops of the fallback. \<open>element\<close> is \<open>None\<close> for \<^verbatim>\<open>null\<close> and
  else the selector of the locator it holds; a locator whose wait fails stays in
  \<open>element\<close>, as in the source, where the assignment precedes the wait.\<close>

fun tryAlternatives ::
  "'b Browser \<Rightarrow> string list \<Rightarrow> string option option \<Rightarrow> string \<Rightarrow> 'b \<Rightarrow>
   (string option option \<times> string) \<times> 'b" where
  "tryAlternatives br [] element finalSelector b = ((element, finalSelector), b)"
| "tryAlternatives br (alt # alts) element finalSelector b =
     (case locatorFirst br (Some alt) of
        Some err \<Rightarrow> tryAlternatives br alts element finalSelector b
      | None \<Rightarrow>
          (case waitFor br (Some alt) ''attached'' 2000 b of
             (None, b1) \<Rightarrow> ((Some (Some alt), alt), b1)
           | (Some err, b1) \<Rightarrow> tryAlternatives br alts (Some (Some alt)) finalSelector b1))"

fun tryGeneric ::
  "'b Browser \<Rightarrow> string list \<Rightarrow> string option option \<Rightarrow> string \<Rightarrow> 'b \<Rightarrow>
   (string option option \<times> string) \<times> 'b" where
  "tryGeneric br [] element finalSelector b = ((element, finalSelector), b)"
| "tryGeneric br (sel # sels) element finalSelector b =
     (case locatorAll br sel b of
        (Inl err, b1) \<Rightarrow> tryGeneric br sels element finalSelector b1
      | (Inr n, b1) \<Rightarrow>
          if 0 < n then
            (case locatorFirst br (Some sel) of
               Some err \<Rightarrow> tryGeneric br sels element finalSelector b1
             | None \<Rightarrow>
                 (case waitFor br (Some sel) ''visible'' 2000 b1 of
                    (None, b2) \<Rightarrow> ((Some (Some sel), sel), b2)
                  | (Some err, b2) \<Rightarrow> tryGeneric br sels (Some (Some sel)) finalSelector b2))
          else tryGeneric br sels element finalSelector b1)"

text \<open>The \<^verbatim>\<open>catch\<close> block after the oracle's own selector has failed.\<close>

definition fallbackLocate ::
  "'b Browser \<Rightarrow> VisionResult \<Rightarrow> string option option \<Rightarrow> string \<Rightarrow> 'b \<Rightarrow>
   (string + string option \<times> string) \<times> 'b" where
  "fallbackLocate br visionResult element finalSelector b =
     (case (case v_selector visionResult of
              None \<Rightarrow> ((element, finalSelector), b)
            | Some s \<Rightarrow>
                if s \<noteq> [] \<and> (js_includes s '':has-text'' \<or> prefix ''text='' s)
                then tryAlternatives br (textAlternatives s) element finalSelector b
                else ((element, finalSelector), b)) of
        ((element1, finalSelector1), b1) \<Rightarrow>
          (case (if element1 = None
                 then tryGeneric br genericSelectors element1 finalSelector1 b1
                 else ((element1, finalSelector1), b1)) of
             ((None, finalSelector2), b2) \<Rightarrow>
               (Inl (''Could not find clickable element. Vision suggested: '' @
                     (case v_selector visionResult of None \<Rightarrow> ''undefined'' | Some s \<Rightarrow> s)), b2)
           | ((Some el, finalSelector2), b2) \<Rightarrow> (Inr (el, finalSelector2), b2)))"

definition locateElement ::
  "'b Browser \<Rightarrow> VisionResult \<Rightarrow> 'b \<Rightarrow> (string + string option \<times> string) \<times> 'b" where
  "locateElement br visionResult b =
     (let finalSelector = (case v_selector visionResult of None \<Rightarrow> [] | Some s \<Rightarrow> s)
      in case locatorFirst br (v_selector visionResult) of
           Some err \<Rightarrow> fallbackLocate br visionResult None finalSelector b
         | None \<Rightarrow>
             (case waitFor br (v_selector visionResult) ''attached'' 5000 b of
                (None, b1) \<Rightarrow> (Inr (v_selector visionResult, finalSelector), b1)
              | (Some err, b1) \<Rightarrow>
                  fallbackLocate br visionResult (Some (v_selector visionResult))
                    finalSelector b1))"

text \<open>The normal click and, after any failure of it, the click through
  \<^verbatim>\<open>element.evaluate\<close>. The result is the message thrown, if any.\<close>

definition jsClick :: "'b Browser \<Rightarrow> string option \<Rightarrow> string \<Rightarrow> 'b \<Rightarrow> string option \<times> 'b" where
  "jsClick br el normalClickError b =
     (case evaluateClick br el b of
        (None, b1) \<Rightarrow> (None, b1)
      | (Some jsError, b1) \<Rightarrow> (Some (''Could not click element: '' @ normalClickError), b1))"

definition clickLocated :: "'b Browser \<Rightarrow> string option \<Rightarrow> 'b \<Rightarrow> string option \<times> 'b" where
  "clickLocated br el b =
     (case waitFor br el ''visible'' 5000 b of
        (Some err, b1) \<Rightarrow> jsClick br el err b1
      | (None, b1) \<Rightarrow>
          (case scrollIntoViewIfNeeded br el b1 of
             (Some err, b2) \<Rightarrow> jsClick br el err b2
           | (None, b2) \<Rightarrow>
               (case randomDelay br 100 300 b2 of
                  (ms, b3) \<Rightarrow>
                    (case waitForTimeout br ms b3 of
                       (Some err, b4) \<Rightarrow> jsClick br el err b4
                     | (None, b4) \<Rightarrow>
                         (case elementClick br el b4 of
                            (Some err, b5) \<Rightarrow> jsClick br el err b5
                          | (None, b5) \<Rightarrow> (None, b5))))))"

text \<open>After the click: \<^verbatim>\<open>smartWait\<close>, then the waits whose failure is ignored.\<close>

definition afterClick :: "'b Browser \<Rightarrow> 'b \<Rightarrow> 'b" where
  "afterClick br b =
     (case waitForNavigation br (smartWait br b) of
        (Some err, b1) \<Rightarrow> b1
      | (None, b1) \<Rightarrow> snd (waitForTimeout br 1000 (waitForAngular br b1)))"

datatype ActionResult = Clicked string | Validated bool | OtherResult json

text \<open>\<^verbatim>\<open>click\<close>; \<open>useVision\<close> is the agent's field of this name.\<close>

definition click ::
  "'b Browser \<Rightarrow> bool \<Rightarrow> json Step \<Rightarrow> 'b \<Rightarrow> (string + ActionResult) \<times> 'b" where
  "click br useVision step b =
     (if useVision then
        (case executeActionWithVision br
                (if description step \<noteq> [] then description step else gherkinStep step)
                ''click'' JNull b of
           (Inl err, b1) \<Rightarrow> (Inl err, b1)
         | (Inr visionResult, b1) \<Rightarrow>
             (case locateElement br visionResult b1 of
                (Inl err, b2) \<Rightarrow> (Inl err, b2)
              | (Inr (el, finalSelector), b2) \<Rightarrow>
                  (case clickLocated br el b2 of
                     (Some err, b3) \<Rightarrow> (Inl err, b3)
                   | (None, b3) \<Rightarrow> (Inr (Clicked finalSelector), afterClick br b3))))
      else
        (let sel = (case selector step of
                      Some s \<Rightarrow> if s \<noteq> [] then s
                                else ''button:has-text('' @ quoted (jsToString (data step)) @ '')''
                    | None \<Rightarrow> ''button:has-text('' @ quoted (jsToString (data step)) @ '')'')
         in case locatorFirst br (Some sel) of
              Some err \<Rightarrow> (Inl err, b)
            | None \<Rightarrow>
                (case waitFor br (Some sel) ''visible'' 10000 b of
                   (Some err, b1) \<Rightarrow> (Inl err, b1)
                 | (None, b1) \<Rightarrow>
                     (case elementClick br (Some sel) b1 of
                        (Some err, b2) \<Rightarrow> (Inl err, b2)
                      | (None, b2) \<Rightarrow> (Inr (Clicked sel), b2)))))"

section \<open>WebExecutorAgent: validating\<close>

text \<open>\<^verbatim>\<open>validation.expected || step.selector\<close> inside a template literal, and the test
  \<^verbatim>\<open>isConfirmationMessage\<close> on \<^verbatim>\<open>validation.expected || step.selector || ''\<close>.\<close>

definition searchTextOf :: "json \<Rightarrow> string option \<Rightarrow> string" where
  "searchTextOf expected sel =
     (if truthy expected then jsToString expected
      else (case sel of None \<Rightarrow> ''null'' | Some s \<Rightarrow> s))"

definition isConfirmationMessage :: "json \<Rightarrow> string option \<Rightarrow> bool" where
  "isConfirmationMessage expected sel =
     (case (if truthy expected then (case expected of JStr s \<Rightarrow> Some s | _ \<Rightarrow> None)
            else (case sel of None \<Rightarrow> Some [] | Some s \<Rightarrow> Some s)) of
        None \<Rightarrow> False
      | Some s \<Rightarrow> js_includes (toLowerCase s) ''order is complete'' \<or>
                  js_includes (toLowerCase s) ''confirmation'' \<or>
                  js_includes (toLowerCase s) ''success'')"

text \<open>The content to validate: \<open>None\<close> is \<^verbatim>\<open>null\<close>.\<close>

definition captureActual ::
  "'b Browser \<Rightarrow> string option \<Rightarrow> 'b \<Rightarrow> (string + string option) \<times> 'b" where
  "captureActual br sel b =
     (case sel of
        None \<Rightarrow> bodyText br b
      | Some s \<Rightarrow>
          if s = [] then bodyText br b
          else (case locatorFirst br (Some s) of
                  Some err \<Rightarrow> bodyText br b
                | None \<Rightarrow>
                    (case waitFor br (Some s) ''attached'' 10000 b of
                       (Some err, b1) \<Rightarrow> bodyText br b1
                     | (None, b1) \<Rightarrow>
                         (case elementText br s b1 of
                            (Inl err, b2) \<Rightarrow> bodyText br b2
                          | (Inr actual, b2) \<Rightarrow> (Inr actual, b2)))))"

definition textIs :: "string \<Rightarrow> string" where
  "textIs searchText = ''text='' @ quoted searchText"

definition hasText :: "string \<Rightarrow> string" where
  "hasText searchText = ''*:has-text('' @ quoted searchText @ '')''"

text \<open>The \<^verbatim>\<open>while (!found && retryCount < maxRetries)\<close> loop, entered with \<^verbatim>\<open>found\<close>
  false; it returns \<^verbatim>\<open>found\<close>. An exception in a round goes to the \<^verbatim>\<open>catch\<close>, which
  counts the round.\<close>

function existsLoop :: "'b Browser \<Rightarrow> string \<Rightarrow> nat \<Rightarrow> 'b \<Rightarrow> bool \<times> 'b" where
  "existsLoop br searchText retryCount b =
     (if retryCount < 5 then
        (case isVisible br (textIs searchText) b of
           (Inl err, b1) \<Rightarrow> existsLoop br searchText (retryCount + 1) b1
         | (Inr True, b1) \<Rightarrow> (True, b1)
         | (Inr False, b1) \<Rightarrow>
             (case isVisible br (hasText searchText) b1 of
                (Inl err, b2) \<Rightarrow> existsLoop br searchText (retryCount + 1) b2
              | (Inr True, b2) \<Rightarrow> (True, b2)
              | (Inr False, b2) \<Rightarrow>
                  existsLoop br searchText (retryCount + 1) (snd (waitForTimeout br 1000 b2))))
      else (False, b))"
  by pat_completeness auto
termination
  by (relation "measure (\<lambda>(br, searchText, retryCount, b). 5 - retryCount)") auto

declare existsLoop.simps [simp del]

definition notFoundMessage :: "string \<Rightarrow> string" where
  "notFoundMessage searchText = ''Expected text '' @ quoted searchText @ '' not found on page''"

definition verifyInstruction :: "string \<Rightarrow> string" where
  "verifyInstruction searchText =
     ''Verify if the text '' @ quoted searchText @ '' is visible on the screen.''"

text \<open>What follows the loop in \<^verbatim>\<open>case 'exists'\<close>.\<close>

definition askVision ::
  "'b Browser \<Rightarrow> string \<Rightarrow> 'b \<Rightarrow> (string + ActionResult) \<times> 'b" where
  "askVision br searchText b =
     (case executeActionWithVision br (verifyInstruction searchText) ''validate'' JNull b of
        (Inl err, b1) \<Rightarrow> (Inl err, b1)
      | (Inr visionResult, b1) \<Rightarrow>
          if found visionResult = Some True then (Inr (Validated True), b1)
          else (Inl (notFoundMessage searchText), b1))"

definition validateExists ::
  "'b Browser \<Rightarrow> bool \<Rightarrow> string \<Rightarrow> 'b \<Rightarrow> (string + ActionResult) \<times> 'b" where
  "validateExists br useVision searchText b =
     (case existsLoop br searchText 0 b of
        (True, b1) \<Rightarrow> (Inr (Validated True), b1)
      | (False, b1) \<Rightarrow>
          if useVision then askVision br searchText b1
          else (Inl (notFoundMessage searchText), b1))"

text \<open>\<^verbatim>\<open>actual !== validation.expected\<close> and \<^verbatim>\<open>!actual?.includes(validation.expected)\<close>.\<close>

definition strictlyEqual :: "string option \<Rightarrow> json \<Rightarrow> bool" where
  "strictlyEqual actual expected =
     (case actual of None \<Rightarrow> expected = JNull | Some s \<Rightarrow> expected = JStr s)"

definition validate ::
  "'b Browser \<Rightarrow> bool \<Rightarrow> json Step \<Rightarrow> 'b \<Rightarrow> (string + ActionResult) \<times> 'b" where
  "validate br useVision step b =
     (case validation step of
        None \<Rightarrow> (Inl ''No validation specified'', b)
      | Some (vtype, expected) \<Rightarrow>
          (case waitForTimeout br
                  (if isConfirmationMessage expected (selector step) then 4000 else 2000)
                  (smartWait br b) of
             (Some err, b1) \<Rightarrow> (Inl err, b1)
           | (None, b1) \<Rightarrow>
               (case captureActual br (selector step) b1 of
                  (Inl err, b2) \<Rightarrow> (Inl err, b2)
                | (Inr actual, b2) \<Rightarrow>
                    if vtype = ''exists''
                    then validateExists br useVision (searchTextOf expected (selector step)) b2
                    else if vtype = ''equals'' then
                      (if strictlyEqual actual expected then (Inr (Validated True), b2)
                       else (Inl (''Expected '' @ quoted (jsToString expected) @ '' but found '' @
                                  quoted (case actual of None \<Rightarrow> ''null'' | Some s \<Rightarrow> s)), b2))
                    else if vtype = ''contains'' then
                      (case actual of
                         None \<Rightarrow>
                           (Inl (''Expected text to contain '' @ quoted (jsToString expected)), b2)
                       | Some s \<Rightarrow>
                           if js_includes s (jsToString expected) then (Inr (Validated True), b2)
                           else (Inl (''Expected text to contain '' @
                                      quoted (jsToString expected)), b2))
                    else (Inr (Validated True), b2))))"

section \<open>WebExecutorAgent: executing a step\<close>

text \<open>The result of \<^verbatim>\<open>executeStep\<close>: the step result, with what the action returned in
  \<open>outcome\<close>. The screenshot, the diagnostics and the timestamp are left out.\<close>

record 'd WebStepResult = "'d StepResult" +
  outcome :: "ActionResult option"

definition failedStep :: "'b Browser \<Rightarrow> json Step \<Rightarrow> string \<Rightarrow> 'b \<Rightarrow> 'd WebStepResult \<times> 'b" where
  "failedStep br step err b =
     (\<lparr>success = False, res_step = description step, res_action = action step,
       res_error = Some err, diagnostic = None, outcome = None\<rparr>,
      collectDiagnostics br (snd (pageScreenshot br b)))"

text \<open>\<^verbatim>\<open>executeStep\<close>. The handlers of the actions other than \<^verbatim>\<open>click\<close> and
  \<^verbatim>\<open>validate\<close> (\<^verbatim>\<open>navigate\<close>, \<^verbatim>\<open>type\<close>, \<^verbatim>\<open>select\<close>, \<^verbatim>\<open>wait\<close>, \<^verbatim>\<open>hover\<close>,
  \<^verbatim>\<open>scroll\<close>, \<^verbatim>\<open>genericAction\<close>) are not embedded: \<open>others\<close> stands for them.\<close>

definition executeStep ::
  "'b Browser \<Rightarrow> bool \<Rightarrow> ('b Browser \<Rightarrow> json Step \<Rightarrow> 'b \<Rightarrow> (string + ActionResult) \<times> 'b) \<Rightarrow>
   json Step \<Rightarrow> nat \<Rightarrow> 'b \<Rightarrow> 'd WebStepResult \<times> 'b" where
  "executeStep br useVision others step stepIndex b =
     (case (if action step = ''click'' then click br useVision step b
            else if action step = ''validate'' then validate br useVision step b
            else others br step b) of
        (Inl err, b1) \<Rightarrow> failedStep br step err b1
      | (Inr res, b1) \<Rightarrow>
          (case pageScreenshot br (smartWait br b1) of
             (Inl err, b2) \<Rightarrow> failedStep br step err b2
           | (Inr shot, b2) \<Rightarrow>
               (\<lparr>success = True, res_step = description step, res_action = action step,
                 res_error = None, diagnostic = None, outcome = Some res\<rparr>, b2)))"

section \<open>Reading the record of a validation\<close>

text \<open>One round of the loop of \<^verbatim>\<open>case 'exists'\<close> as it appears in the record, for the
  text \<open>wanted\<close>; the selectors and messages are written out here, not taken from the
  functions above. A round that does not find the text is a check of
  \<^verbatim>\<open>text="wanted"\<close> that throws, or this check answering no followed by a check of
  \<^verbatim>\<open>*:has-text("wanted")\<close> that throws, or the two checks answering no followed by the
  pause of 1000 ms. A round that finds the text ends with a check answering yes.\<close>

definition failedRound :: "string \<Rightarrow> event list \<Rightarrow> bool" where
  "failedRound wanted evs =
     ((\<exists>err. evs = [EvVisible (''text=\"'' @ wanted @ ''\"'') (Inl err)]) \<or>
      (\<exists>err. evs = [EvVisible (''text=\"'' @ wanted @ ''\"'') (Inr False),
                    EvVisible (''*:has-text(\"'' @ wanted @ ''\")'') (Inl err)]) \<or>
      evs = [EvVisible (''text=\"'' @ wanted @ ''\"'') (Inr False),
             EvVisible (''*:has-text(\"'' @ wanted @ ''\")'') (Inr False), EvPause 1000])"

definition foundRound :: "string \<Rightarrow> event list \<Rightarrow> bool" where
  "foundRound wanted evs =
     (evs = [EvVisible (''text=\"'' @ wanted @ ''\"'') (Inr True)] \<or>
      evs = [EvVisible (''text=\"'' @ wanted @ ''\"'') (Inr False),
             EvVisible (''*:has-text(\"'' @ wanted @ ''\")'') (Inr True)])"

fun isDomCheck :: "event \<Rightarrow> bool" where
  "isDomCheck (EvVisible sel r) = True"
| "isDomCheck ev = False"

fun isVisionCall :: "event \<Rightarrow> bool" where
  "isVisionCall (EvVision p reply) = True"
| "isVisionCall ev = False"

text \<open>The verdict on the oracle's answer: an error of the call or of the parsing is
  raised as it is; an answer with \<^verbatim>\<open>found\<close> true passes; any other answer fails with the
  message that names the text.\<close>

definition visionVerdict :: "string \<Rightarrow> string + VisionResult \<Rightarrow> string + ActionResult" where
  "visionVerdict wanted answer =
     (case answer of
        Inl err \<Rightarrow> Inl err
      | Inr visionResult \<Rightarrow>
          if found visionResult = Some True then Inr (Validated True)
          else Inl (''Expected text \"'' @ wanted @ ''\" not found on page''))"

section \<open>Two answers that differ in the advisory fields\<close>



section \<open>Concrete inputs\<close>

text \<open>A library instance, a plan and worlds for the concrete runs further down. The hash
  function stands in for MD5; \<open>randomStr\<close> gives the first six base-36 digits of the
  fraction for the draws just above \<open>1/2\<close> that the runs use (\<open>36 ^ 6 = 2176782336\<close>).\<close>

definition sampleLib :: Library where
  "sampleLib =
     \<lparr>generateHash = (\<lambda>s. ''md5-'' @ s),
      getCacheFilePath = (\<lambda>p. ''.features-cache/'' @ p @ ''.cache.json''),
      basename = (\<lambda>p. p),
      gherkinParse = (\<lambda>c. Inr None),
      parseInterpretation = (\<lambda>c. None),
      regExpReplace = (\<lambda>p r s. Inl ''Invalid regular expression''),
      randomStr = (\<lambda>x. if 1 / 2 < x \<and> x < 1 / 2 + 1 / 2176782336 then ''i00000'' else ''000000'')\<rparr>"

definition emailStep :: "json Step" where
  "emailStep =
     \<lparr>gherkinStep = ''When I enter my email'', action = ''type'', selector = Some [],
      data = JStr ''<email>'', description = ''Enter the email address'', validation = None\<rparr>"

definition emailPlan :: ExecutionPlan where
  "emailPlan =
     \<lparr>feature = ''Register'', plan_description = [],
      scenarios = [\<lparr>name = ''Sign up'', sc_context = ''web'', steps = [emailStep, emailStep]\<rparr>],
      plan_type = ''web'', metadata = \<lparr>tags = [], language = ''en''\<rparr>, listed = True\<rparr>"

definition cachedWorld :: "int \<Rightarrow> int \<Rightarrow> World" where
  "cachedWorld savedAt now =
     \<lparr>files = [''register.feature'' \<mapsto> ''Feature: Register''],
      cacheFiles = [''.features-cache/register.feature.cache.json'' \<mapsto>
         Entry \<lparr>featureFile = ''register.feature'',
                contentHash = Some ''md5-Feature: Register'',
                timestamp = Some savedAt, plan = Some emailPlan\<rparr>],
      diskWritable = True,
      times = (\<lambda>n. now), tick = 0,
      rands = (\<lambda>n. 1 / 2 + (real n + 1) / 1000000000000000), rtick = 0,
      reasoningOracle = (\<lambda>p. CallFailed ''network unreachable'')\<rparr>"

definition registerFeature :: GFeature where
  "registerFeature =
     \<lparr>f_name = ''Register'', f_description = [],
      f_children =
        [ChildOther,
         ChildScenario
           \<lparr>g_name = ''Sign up'',
            g_steps =
              [\<lparr>g_keyword = ''Given '', g_text = ''I visit /register'', g_dataTable = None\<rparr>,
               \<lparr>g_keyword = ''When '', g_text = ''I click on the \"Register\" button'',
                g_dataTable = None\<rparr>],
            g_examples = []\<rparr>],
      f_tags = [''@web''], f_language = ''en''\<rparr>"

definition oracleAnswer :: Interpretation where
  "oracleAnswer =
     \<lparr>testType = ''web'',
      i_scenarios =
        [\<lparr>name = ''Sign up'', sc_context = ''Angular app'',
          steps =
            [\<lparr>gherkinStep = ''When I click on the \"Register\" button'', action = ''click'',
              selector = Some ''#register-btn'', data = JNull,
              description = ''Click on the Register button'', validation = None\<rparr>]\<rparr>],
      i_shape = Listed\<rparr>"

definition oracleLib :: Library where
  "oracleLib =
     sampleLib\<lparr>gherkinParse := (\<lambda>c. Inr (Some registerFeature)),
               parseInterpretation := (\<lambda>c. if c = ''{answer}'' then Some oracleAnswer else None)\<rparr>"

definition defaultConfig :: GherkinAgentConfig where
  "defaultConfig = \<lparr>enableCache = True, forceRegenerate = False\<rparr>"

definition freshWorld :: "OracleReply \<Rightarrow> World" where
  "freshWorld reply =
     \<lparr>files = [''register.feature'' \<mapsto> ''Feature: Register''],
      cacheFiles = Map.empty,
      diskWritable = True,
      times = (\<lambda>n. 1700000000000), tick = 0,
      rands = (\<lambda>n. 1 / 2 + (real n + 1) / 1000000000000000), rtick = 0,
      reasoningOracle = (\<lambda>p. reply)\<rparr>"

definition oracleCompiled :: ExecutionPlan where
  "oracleCompiled =
     \<lparr>feature = ''Register'', plan_description = [],
      scenarios = i_scenarios oracleAnswer, plan_type = ''web'',
      metadata = \<lparr>tags = [''@web''], language = ''en''\<rparr>, listed = True\<rparr>"





text \<open>A page for the examples of the web executor. Its state counts the visibility
  checks made so far; a text becomes visible at the check number \<open>visibleFrom\<close>. Only the
  button \<^verbatim>\<open>button:has-text('Register')\<close> can be found; the Vision Oracle always
  answers \<open>content\<close>.\<close>

definition registerButton :: string where
  "registerButton = ''button:has-text('' @ apostrophed ''Register'' @ '')''"

definition clickAnswer :: string where
  "clickAnswer = ''{'' @ quoted ''selector'' @ '': '' @ quoted ''text=Register'' @ '', '' @
                 quoted ''confidence'' @ '': '' @ quoted ''high'' @ ''}''"

definition absentAnswer :: string where
  "absentAnswer = ''{'' @ quoted ''found'' @ '': false}''"

definition noVisionResult :: VisionResult where
  "noVisionResult =
     \<lparr>strategy = None, v_selector = None, dropdownSelector = None, actualText = None,
      reasoning = None, confidence = None, v_fields = None, found = None\<rparr>"

definition sampleParse :: "string \<Rightarrow> VisionResult option" where
  "sampleParse s =
     (if s = clickAnswer
      then Some (noVisionResult\<lparr>v_selector := Some ''text=Register'', confidence := Some ''high''\<rparr>)
      else if s = absentAnswer then Some (noVisionResult\<lparr>found := Some False\<rparr>)
      else None)"

definition samplePage :: "nat \<Rightarrow> string \<Rightarrow> nat Browser" where
  "samplePage visibleFrom content =
     \<lparr>pageScreenshot = (\<lambda>n. (Inr ''jpeg'', n)),
      visionCall = (\<lambda>p shot n. (Reply (Some content), n)),
      parseVision = sampleParse,
      locatorFirst = (\<lambda>sel. None),
      waitFor = (\<lambda>sel st t n. (if sel = Some registerButton then None
                                 else Some ''Timeout exceeded'', n)),
      locatorAll = (\<lambda>sel n. (Inr 0, n)),
      scrollIntoViewIfNeeded = (\<lambda>sel n. (None, n)),
      waitForTimeout = (\<lambda>ms n. (None, n)),
      elementClick = (\<lambda>sel n. (None, n)),
      evaluateClick = (\<lambda>sel n. (None, n)),
      isVisible = (\<lambda>sel n. (Inr (visibleFrom \<le> n), Suc n)),
      elementText = (\<lambda>sel n. (Inr (Some ''Welcome''), n)),
      bodyText = (\<lambda>n. (Inr (Some ''Welcome''), n)),
      smartWait = (\<lambda>n. n),
      waitForAngular = (\<lambda>n. n),
      waitForNavigation = (\<lambda>n. (None, n)),
      randomDelay = (\<lambda>lo hi n. (lo, n)),
      collectDiagnostics = (\<lambda>n. n)\<rparr>"


definition thanksStep :: "json Step" where
  "thanksStep =
     \<lparr>gherkinStep = ''Then I should see Thanks'', action = ''validate'',
      selector = None, data = JNull, description = ''Check that Thanks is shown'',
      validation = Some (''exists'', JStr ''Thanks'')\<rparr>"



text \<open>The validation of \<open>thanksStep\<close> on a page that never shows the text, with an oracle
  that does not see it either.\<close>

definition thanksRun :: "(string + ActionResult) \<times> nat \<times> event list" where
  "thanksRun = validate (recording (samplePage 100 absentAnswer)) True thanksStep (0, [])"

text \<open>A page whose visibility checks throw.\<close>

definition closedPage :: "nat Browser" where
  "closedPage =
     (samplePage 100 absentAnswer)
       \<lparr>isVisible := (\<lambda>sel n. (Inl ''Target page, context or browser has been closed'', Suc n))\<rparr>"
section \<open>Orchestrator: fail-fast\<close>

lemma stepLoop_results:
  "stepLoop ex an sc i sr st w = (exn, sr', st', w') \<Longrightarrow>
   sr_status sr = StRunning \<Longrightarrow> \<forall>r\<in>set (sr_steps sr). success r \<Longrightarrow>
   \<exists>new. sr_steps sr' = sr_steps sr @ new \<and>
     ((sr_status sr' = StRunning \<and> (\<forall>r\<in>set new. success r)) \<or>
      (sr_status sr' = StFailed \<and> exn = None \<and> new \<noteq> [] \<and>
       (\<forall>r\<in>set (butlast new). success r) \<and> \<not> success (last new)))"
proof (induction ex an sc i sr st w rule: stepLoop.induct)
  case (1 ex an sc i sr st w)
  show ?case
  proof (cases "i < length (steps sc)")
    case False
    with "1.prems" show ?thesis by (simp add: stepLoop.simps)
  next
    case True
    obtain res w1 where ex: "ex (steps sc ! i) i w = (res, w1)" by (cases "ex (steps sc ! i) i w")
    show ?thesis
    proof (cases res)
      case (Inl msg)
      with True ex "1.prems" show ?thesis by (simp add: stepLoop.simps[of ex an sc i])
    next
      case (Inr r)
      show ?thesis
      proof (cases "success r")
        case False
        obtain r' w2 where af: "analyzeFailed an r sc w1 = (r', w2)" by (cases "analyzeFailed an r sc w1")
        have "success r' = success r" using af
          by (auto simp: analyzeFailed_def split: prod.splits sum.splits)
        with True ex Inr False af "1.prems" show ?thesis
          by (auto simp: stepLoop.simps[of ex an sc i] intro!: exI[of _ "[r']"])
      next
        case sr: True
        let ?sr1 = "sr\<lparr>sr_steps := sr_steps sr @ [r]\<rparr>"
        have run: "stepLoop ex an sc (i + 1) ?sr1
              (st\<lparr>totalSteps := totalSteps st + 1, passed := passed st + 1\<rparr>) w1 = (exn, sr', st', w')"
          using True ex Inr sr "1.prems"(1) by (simp add: stepLoop.simps[of ex an sc i])
        have "\<exists>new. sr_steps sr' = sr_steps ?sr1 @ new \<and>
     ((sr_status sr' = StRunning \<and> (\<forall>r\<in>set new. success r)) \<or>
      (sr_status sr' = StFailed \<and> exn = None \<and> new \<noteq> [] \<and>
       (\<forall>r\<in>set (butlast new). success r) \<and> \<not> success (last new)))"
          apply (rule "1.IH"[OF True refl refl ex[symmetric] Inr sr])
          using run "1.prems" sr by auto
        then obtain new where n: "sr_steps sr' = sr_steps ?sr1 @ new"
          "((sr_status sr' = StRunning \<and> (\<forall>r\<in>set new. success r)) \<or>
      (sr_status sr' = StFailed \<and> exn = None \<and> new \<noteq> [] \<and>
       (\<forall>r\<in>set (butlast new). success r) \<and> \<not> success (last new)))" by blast
        show ?thesis
          apply (rule exI[of _ "r # new"])
          using n sr by auto
      qed
    qed
  qed
qed


lemma stepLoop_calls:
  "stepLoop (logged ex) (unlogged an) sc i sr st (w, calls) = (exn, sr', st', (w', calls')) \<Longrightarrow>
   sr_status sr = StRunning \<Longrightarrow>
   \<exists>m. calls' = calls @ [i..<i + m] \<and> (m = 0 \<or> i + m \<le> length (steps sc)) \<and>
     length (sr_steps sr') + (if exn = None then 0 else 1) = length (sr_steps sr) + m \<and>
     (exn = None \<and> sr_status sr' = StRunning \<and> i \<le> length (steps sc) \<longrightarrow> i + m = length (steps sc))"
proof (induction "logged ex" "unlogged an" sc i sr st "(w, calls)"
         arbitrary: w calls rule: stepLoop.induct)
  case (1 sc i sr st w calls)
  show ?case
  proof (cases "i < length (steps sc)")
    case False
    with "1.prems" show ?thesis by (auto simp: stepLoop.simps intro!: exI[of _ 0])
  next
    case True
    obtain res w1 where ex: "ex (steps sc ! i) i w = (res, w1)" by (cases "ex (steps sc ! i) i w")
    then have lex: "logged ex (steps sc ! i) i (w, calls) = (res, (w1, calls @ [i]))"
      by (simp add: logged_def)
    show ?thesis
    proof (cases res)
      case (Inl msg)
      with True lex "1.prems" show ?thesis
        by (auto simp: stepLoop.simps[of _ _ sc i] intro!: exI[of _ 1])
    next
      case (Inr r)
      show ?thesis
      proof (cases "success r")
        case False
        obtain r' w2 where af: "analyzeFailed (unlogged an) r sc (w1, calls @ [i]) = (r', w2)"
          by (cases "analyzeFailed (unlogged an) r sc (w1, calls @ [i])")
        then have "snd w2 = calls @ [i]"
          by (auto simp: analyzeFailed_def unlogged_def split: prod.splits sum.splits)
        with True lex Inr False af "1.prems" show ?thesis
          by (auto simp: stepLoop.simps[of _ _ sc i] intro!: exI[of _ 1])
      next
        case sr: True
        let ?sr1 = "sr\<lparr>sr_steps := sr_steps sr @ [r]\<rparr>"
        have run: "stepLoop (logged ex) (unlogged an) sc (i + 1) ?sr1
              (st\<lparr>totalSteps := totalSteps st + 1, passed := passed st + 1\<rparr>) (w1, calls @ [i])
               = (exn, sr', st', (w', calls'))"
          using True lex Inr sr "1.prems"(1) by (simp add: stepLoop.simps[of _ _ sc i])
        have "\<exists>m. calls' = (calls @ [i]) @ [i + 1..<i + 1 + m] \<and> (m = 0 \<or> i + 1 + m \<le> length (steps sc)) \<and>
     length (sr_steps sr') + (if exn = None then 0 else 1) = length (sr_steps ?sr1) + m \<and>
     (exn = None \<and> sr_status sr' = StRunning \<and> i + 1 \<le> length (steps sc) \<longrightarrow> i + 1 + m = length (steps sc))"
          apply (rule "1.hyps"[OF True refl refl lex[symmetric] Inr sr])
          using run "1.prems" by auto
        then obtain m where m: "calls' = (calls @ [i]) @ [i + 1..<i + 1 + m]"
          "m = 0 \<or> i + 1 + m \<le> length (steps sc)"
          "length (sr_steps sr') + (if exn = None then 0 else 1) = length (sr_steps ?sr1) + m"
          "exn = None \<and> sr_status sr' = StRunning \<and> i + 1 \<le> length (steps sc) \<longrightarrow> i + 1 + m = length (steps sc)"
          by blast
        have "[i..<i + Suc m] = i # [i + 1..<i + 1 + m]"
          by (simp add: upt_conv_Cons)
        with m True show ?thesis
          by (intro exI[of _ "Suc m"]) auto
      qed
    qed
  qed
qed

lemma runScenario_loop:
  assumes "runScenario ex an sc st w = (result, st', w')"
  obtains exn sr st'' where
    "stepLoop ex an sc 0 (initialResult sc) st w = (exn, sr, st'', w')"
    "sr_steps result = sr_steps sr"
    "sr_status result =
       (case exn of Some msg \<Rightarrow> StError
        | None \<Rightarrow> if sr_status sr = StRunning then StPassed else sr_status sr)"
proof -
  obtain exn sr st'' w'' where
    l: "stepLoop ex an sc 0 (initialResult sc) st w = (exn, sr, st'', w'')"
    using prod_cases4 by blast
  show thesis
  proof (cases exn)
    case None
    with assms l have "w'' = w'" "sr_steps result = sr_steps sr"
      "sr_status result = (if sr_status sr = StRunning then StPassed else sr_status sr)"
      by (auto simp: runScenario_def)
    with l None that show thesis by simp
  next
    case (Some msg)
    with assms l have "w'' = w'" "sr_steps result = sr_steps sr" "sr_status result = StError"
      by (auto simp: runScenario_def)
    with l Some that show thesis by simp
  qed
qed


lemma runScenario_results:
  assumes "runScenario ex an sc st w = (result, st', w')"
  shows "(sr_status result \<noteq> StFailed \<and> (\<forall>r\<in>set (sr_steps result). success r)) \<or>
         (sr_status result = StFailed \<and> sr_steps result \<noteq> [] \<and>
          (\<forall>r\<in>set (butlast (sr_steps result)). success r) \<and> \<not> success (last (sr_steps result)))"
proof -
  from assms obtain exn sr st'' where
    l: "stepLoop ex an sc 0 (initialResult sc) st w = (exn, sr, st'', w')"
    and s: "sr_steps result = sr_steps sr"
    and t: "sr_status result =
       (case exn of Some msg \<Rightarrow> StError
        | None \<Rightarrow> if sr_status sr = StRunning then StPassed else sr_status sr)"
    by (rule runScenario_loop)
  from stepLoop_results[OF l]
  have "(sr_status sr = StRunning \<and> (\<forall>r\<in>set (sr_steps sr). success r)) \<or>
      (sr_status sr = StFailed \<and> exn = None \<and> sr_steps sr \<noteq> [] \<and>
       (\<forall>r\<in>set (butlast (sr_steps sr)). success r) \<and> \<not> success (last (sr_steps sr)))"
    by (simp add: initialResult_def)
  then show ?thesis
  proof
    assume a: "sr_status sr = StRunning \<and> (\<forall>r\<in>set (sr_steps sr). success r)"
    then have "sr_status result \<noteq> StFailed" using t by (cases exn) simp_all
    with a s show ?thesis by simp
  next
    assume a: "sr_status sr = StFailed \<and> exn = None \<and> sr_steps sr \<noteq> [] \<and>
       (\<forall>r\<in>set (butlast (sr_steps sr)). success r) \<and> \<not> success (last (sr_steps sr))"
    then have "sr_status result = StFailed" using t by simp
    with a s show ?thesis by simp
  qed
qed


text \<open>
  Claim C1. Steps run strictly in order and the scenario stops at the first unsuccessful
  step result. With an executor that records every invocation: the recorded indices are
  \<open>0, 1, 2, ...\<close> without gap or repetition; if the result at position \<open>k\<close> is
  unsuccessful, then exactly the steps \<open>0..k\<close> were executed, the scenario result holds
  exactly \<open>k + 1\<close> step results and its status is \<open>failed\<close>; a passed scenario executed
  every step. For a 3-step scenario whose second step fails (\<open>k = 1\<close>) the third step is
  never executed and there are exactly 2 step results.
\<close>

theorem runScenario_fail_fast:
  assumes run: "runScenario (logged exec) (unlogged analyzeFailure) scenario stats (w, [])
                = (result, stats', (w', calls))"
  shows "calls = [0..<length calls] \<and> length calls \<le> length (steps scenario) \<and>
    (\<forall>k<length (sr_steps result). \<not> success (sr_steps result ! k) \<longrightarrow>
       calls = [0..<Suc k] \<and> length (sr_steps result) = Suc k \<and> sr_status result = StFailed) \<and>
    (sr_status result = StPassed \<longrightarrow>
       calls = [0..<length (steps scenario)] \<and>
       length (sr_steps result) = length (steps scenario))"
proof -
  from run obtain exn sr st'' where
    l: "stepLoop (logged exec) (unlogged analyzeFailure) scenario 0 (initialResult scenario)
          stats (w, []) = (exn, sr, st'', (w', calls))"
    and s: "sr_steps result = sr_steps sr"
    and t: "sr_status result =
       (case exn of Some msg \<Rightarrow> StError
        | None \<Rightarrow> if sr_status sr = StRunning then StPassed else sr_status sr)"
    by (rule runScenario_loop)
  from stepLoop_calls[OF l]
  have "\<exists>m. calls = [0..<m] \<and> (m = 0 \<or> m \<le> length (steps scenario)) \<and>
    length (sr_steps sr) + (if exn = None then 0 else 1) = m \<and>
    (exn = None \<and> sr_status sr = StRunning \<longrightarrow> m = length (steps scenario))"
    by (simp add: initialResult_def)
  then obtain m where mm: "calls = [0..<m] \<and> (m = 0 \<or> m \<le> length (steps scenario)) \<and>
    length (sr_steps sr) + (if exn = None then 0 else 1) = m \<and>
    (exn = None \<and> sr_status sr = StRunning \<longrightarrow> m = length (steps scenario))" ..
  then have m1: "calls = [0..<m]" and m2: "m = 0 \<or> m \<le> length (steps scenario)"
    and m3: "length (sr_steps sr) + (if exn = None then 0 else 1) = m"
    and m4: "exn = None \<and> sr_status sr = StRunning \<longrightarrow> m = length (steps scenario)"
    by simp_all
  have c1: "calls = [0..<length calls]" using m1 by simp
  have c2: "length calls \<le> length (steps scenario)" using m1 m2 by auto
  have c3: "calls = [0..<Suc k] \<and> length (sr_steps result) = Suc k \<and> sr_status result = StFailed"
    if k1: "k < length (sr_steps result)" and k2: "\<not> success (sr_steps result ! k)" for k
  proof -
    from k1 have "sr_steps result ! k \<in> set (sr_steps result)" by (rule nth_mem)
    with k2 have "\<not> (\<forall>r\<in>set (sr_steps result). success r)" by blast
    with runScenario_results[OF run]
    have f1: "sr_status result = StFailed" and f2: "sr_steps result \<noteq> []"
      and f3: "\<forall>r\<in>set (butlast (sr_steps result)). success r"
      by blast+
    have "k = length (sr_steps result) - 1"
    proof (rule ccontr)
      assume "k \<noteq> length (sr_steps result) - 1"
      with k1 have kb: "k < length (butlast (sr_steps result))" by simp
      then have "butlast (sr_steps result) ! k \<in> set (butlast (sr_steps result))"
        by (rule nth_mem)
      with f3 have "success (butlast (sr_steps result) ! k)" by blast
      with kb k2 show False
        by (simp add: nth_butlast)
    qed
    with k1 have len: "length (sr_steps result) = Suc k" by simp
    from f1 t have "exn = None" by (cases exn) simp_all
    with m3 s len have "m = Suc k" by simp
    with m1 len f1 show ?thesis by simp
  qed
  have c4: "calls = [0..<length (steps scenario)] \<and>
       length (sr_steps result) = length (steps scenario)"
    if p: "sr_status result = StPassed"
  proof -
    from p t have e1: "exn = None" by (cases exn) simp_all
    from stepLoop_results[OF l]
    have "sr_status sr = StRunning \<or> sr_status sr = StFailed"
      by (auto simp: initialResult_def)
    with p t e1 have e2: "sr_status sr = StRunning" by (auto split: if_splits)
    with m4 e1 have "m = length (steps scenario)" by simp
    with m1 m3 e1 s show ?thesis by simp
  qed
  from c1 c2 c3 c4 show ?thesis by blast
qed


lemma failSecond_run:
  "runScenario (logged failSecond) (unlogged stubDiagnostic) loginScenario noStats ((), []) =
     (\<lparr>sr_name = ''Login'', sr_context = ''web'',
       sr_steps =
         [\<lparr>success = True, res_step = ''open the login page'', res_action = ''navigate'',
            res_error = None, diagnostic = None\<rparr>,
          \<lparr>success = False, res_step = ''click Sign In'', res_action = ''click'',
            res_error = Some ''Could not click element'', diagnostic = Some ''API_ERROR''\<rparr>],
       sr_status = StFailed, sr_error = None\<rparr>,
      \<lparr>totalFeatures = 0, totalScenarios = 0, totalSteps = 2, passed = 1, failed = 1\<rparr>,
      ((), [0, 1]))"
  by code_simp


theorem runScenario_fail_fast_witness:
  "length (steps loginScenario) = 3 \<and>
   snd (snd (snd (runScenario (logged failSecond) (unlogged stubDiagnostic) loginScenario
      noStats ((), [])))) = [0, 1] \<and>
   length (sr_steps (fst (runScenario (logged failSecond) (unlogged stubDiagnostic) loginScenario
      noStats ((), [])))) = 2 \<and>
   sr_status (fst (runScenario (logged failSecond) (unlogged stubDiagnostic) loginScenario
      noStats ((), []))) = StFailed"
proof -
  let ?result = "\<lparr>sr_name = ''Login'', sr_context = ''web'',
       sr_steps =
         [\<lparr>success = True, res_step = ''open the login page'', res_action = ''navigate'',
            res_error = None, diagnostic = None\<rparr>,
          \<lparr>success = False, res_step = ''click Sign In'', res_action = ''click'',
            res_error = Some ''Could not click element'', diagnostic = Some ''API_ERROR''\<rparr>],
       sr_status = StFailed, sr_error = None\<rparr>"
  have k1: "(1::nat) < length (sr_steps ?result)" by simp
  have k2: "\<not> success (sr_steps ?result ! 1)" by simp
  from runScenario_fail_fast[OF failSecond_run] k1 k2
  have "[0, 1] = [0..<Suc 1] \<and> length (sr_steps ?result) = Suc 1 \<and> sr_status ?result = StFailed"
    by blast
  moreover have "length (steps loginScenario) = 3" by (simp add: loginScenario_def)
  ultimately show ?thesis by (simp add: failSecond_run)
qed

text \<open>
  Claim C10. A scenario result holds at most one unsuccessful step result, and every step
  result before the last one is successful; so an unsuccessful one, if any, is the last.
  This holds for every run, also one that an exception leaves.
\<close>

theorem runScenario_single_failure_last:
  assumes "runScenario exec analyzeFailure scenario stats w = (result, stats', w')"
  shows "length (filter (\<lambda>r. \<not> success r) (sr_steps result)) \<le> 1 \<and>
         (\<forall>r\<in>set (butlast (sr_steps result)). success r)"
proof -
  have a: "filter (\<lambda>r. \<not> success r) xs = []" if "\<forall>r\<in>set xs. success r"
    for xs :: "'c StepResult list"
    using that by (induction xs) simp_all
  from runScenario_results[OF assms] show ?thesis
  proof
    assume h: "sr_status result \<noteq> StFailed \<and> (\<forall>r\<in>set (sr_steps result). success r)"
    then have "\<forall>r\<in>set (butlast (sr_steps result)). success r"
      by (blast dest: in_set_butlastD)
    with h show ?thesis by (simp add: a)
  next
    assume f: "sr_status result = StFailed \<and> sr_steps result \<noteq> [] \<and>
          (\<forall>r\<in>set (butlast (sr_steps result)). success r) \<and> \<not> success (last (sr_steps result))"
    then have "sr_steps result = butlast (sr_steps result) @ [last (sr_steps result)]" by simp
    then have "filter (\<lambda>r. \<not> success r) (sr_steps result) =
       filter (\<lambda>r. \<not> success r) (butlast (sr_steps result)) @
       filter (\<lambda>r. \<not> success r) [last (sr_steps result)]"
      by (metis filter_append)
    with f show ?thesis by (simp add: a)
  qed
qed

theorem runScenario_single_failure_last_witness:
  "length (filter (\<lambda>r. \<not> success r)
     (sr_steps (fst (runScenario (logged failSecond) (unlogged stubDiagnostic) loginScenario
        noStats ((), []))))) = 1 \<and>
   success (hd (sr_steps (fst (runScenario (logged failSecond) (unlogged stubDiagnostic)
        loginScenario noStats ((), []))))) \<and>
   \<not> success (last (sr_steps (fst (runScenario (logged failSecond) (unlogged stubDiagnostic)
        loginScenario noStats ((), [])))))"
  using runScenario_single_failure_last[OF failSecond_run]
  by (simp add: failSecond_run)

section \<open>GherkinAgent: facts about the substitution pass\<close>

lemma mapState_list_all2:
  "mapState f xs s = (Inr ys, s') \<Longrightarrow>
   (\<And>x s y s'. x \<in> set xs \<Longrightarrow> f x s = (Inr y, s') \<Longrightarrow> R x y) \<Longrightarrow> list_all2 R xs ys"
proof (induction xs arbitrary: s ys)
  case Nil
  then show ?case by simp
next
  case (Cons x xs)
  from Cons.prems(1) obtain y s1 ys' where
    fx: "f x s = (Inr y, s1)" and rest: "mapState f xs s1 = (Inr ys', s')" and ys: "ys = y # ys'"
    by (auto split: prod.splits sum.splits)
  have "R x y" using Cons.prems(2)[OF _ fx] by simp
  moreover have "list_all2 R xs ys'"
    using Cons.IH[OF rest] Cons.prems(2) by simp
  ultimately show ?case using ys by simp
qed













lemma processDynamicPlaceholders_listed:
  "listed p \<Longrightarrow>
   processDynamicPlaceholders lib p w =
     (case mapState (processScenario lib) (scenarios p) w of
        (Inl e, w') \<Rightarrow> (Inl e, w')
      | (Inr scs, w') \<Rightarrow> (Inr (p\<lparr>scenarios := scs\<rparr>), w'))"
  by (simp add: processDynamicPlaceholders_def)

lemma processDynamicPlaceholders_unlisted:
  "\<not> listed p \<Longrightarrow> fst (processDynamicPlaceholders lib p w) =
     Inl (''Cannot read properties of undefined (reading '' @ [CHR 0x27] @ ''forEach'' @
          [CHR 0x27] @ '')'') \<and>
   snd (processDynamicPlaceholders lib p w) = w"
  by (simp add: processDynamicPlaceholders_def)

lemma processDynamicPlaceholders_Inr:
  "processDynamicPlaceholders lib p w = (Inr p', w') \<Longrightarrow> listed p"
  by (cases "listed p") (simp_all add: processDynamicPlaceholders_def)


text \<open>The pass changes nothing but the payloads.\<close>

lemma processStep_fields:
  "processStep lib step w = (Inr step', w') \<Longrightarrow> step' = step\<lparr>data := data step'\<rparr>"
  by (auto simp: processStep_def split: prod.splits sum.splits)

lemma processScenario_fields:
  assumes "processScenario lib sc w = (Inr sc', w')"
  shows "name sc' = name sc \<and> sc_context sc' = sc_context sc \<and>
         list_all2 (\<lambda>s s'. s' = s\<lparr>data := data s'\<rparr>) (steps sc) (steps sc')"
proof -
  from assms obtain ss where m: "mapState (processStep lib) (steps sc) w = (Inr ss, w')"
    and sc': "sc' = sc\<lparr>steps := ss\<rparr>"
    by (auto simp: processScenario_def split: prod.splits sum.splits)
  have "list_all2 (\<lambda>s s'. s' = s\<lparr>data := data s'\<rparr>) (steps sc) ss"
    by (rule mapState_list_all2[OF m]) (rule processStep_fields)
  with sc' show ?thesis by simp
qed

lemma processDynamicPlaceholders_fields:
  assumes "processDynamicPlaceholders lib p w = (Inr p', w')"
  shows "p' = p\<lparr>scenarios := scenarios p'\<rparr> \<and>
         list_all2 (\<lambda>sc sc'. name sc' = name sc \<and> sc_context sc' = sc_context sc \<and>
             list_all2 (\<lambda>s s'. s' = s\<lparr>data := data s'\<rparr>) (steps sc) (steps sc'))
           (scenarios p) (scenarios p')"
proof -
  from assms processDynamicPlaceholders_Inr[OF assms]
  obtain scs where m: "mapState (processScenario lib) (scenarios p) w = (Inr scs, w')"
    and p': "p' = p\<lparr>scenarios := scs\<rparr>"
    by (auto simp: processDynamicPlaceholders_listed split: prod.splits sum.splits)
  have "list_all2 (\<lambda>sc sc'. name sc' = name sc \<and> sc_context sc' = sc_context sc \<and>
             list_all2 (\<lambda>s s'. s' = s\<lparr>data := data s'\<rparr>) (steps sc) (steps sc'))
           (scenarios p) scs"
    by (rule mapState_list_all2[OF m]) (rule processScenario_fields)
  with p' show ?thesis by simp
qed

lemma list_all2_map_eq:
  "list_all2 R xs ys \<Longrightarrow> (\<And>x y. R x y \<Longrightarrow> f y = g x) \<Longrightarrow> map f ys = map g xs"
  by (induction rule: list_all2_induct) simp_all

lemma processDynamicPlaceholders_selectors:
  assumes "processDynamicPlaceholders lib p w = (Inr p', w')"
  shows "map (\<lambda>sc. map selector (steps sc)) (scenarios p') =
         map (\<lambda>sc. map selector (steps sc)) (scenarios p)"
proof (rule list_all2_map_eq[OF conjunct2[OF processDynamicPlaceholders_fields[OF assms]]])
  fix sc sc' :: "json Scenario"
  assume "name sc' = name sc \<and> sc_context sc' = sc_context sc \<and>
             list_all2 (\<lambda>s s'. s' = s\<lparr>data := data s'\<rparr>) (steps sc) (steps sc')"
  then have l: "list_all2 (\<lambda>s s'. s' = s\<lparr>data := data s'\<rparr>) (steps sc) (steps sc')" by simp
  show "map selector (steps sc') = map selector (steps sc)"
  proof (rule list_all2_map_eq[OF l])
    fix s s' :: "json Step"
    assume "s' = s\<lparr>data := data s'\<rparr>"
    then have "selector s' = selector (s\<lparr>data := data s'\<rparr>)" by simp
    then show "selector s' = selector s" by simp
  qed
qed







lemma register_heuristic_steps:
  "map (\<lambda>sc. (g_name sc, ''web'',
            map (\<lambda>st. (g_keyword st @ g_text st, guessAction (g_keyword st) (g_text st),
                       guessSelector (g_text st), g_text st, None :: (string \<times> json) option))
              (g_steps sc)))
       (childScenarios registerFeature) =
   [(''Sign up'', ''web'',
     [(''Given I visit /register'', ''navigate'', Some ''/register'', ''I visit /register'', None),
      (''When I click on the \"Register\" button'', ''click'', Some ''Register'',
       ''I click on the \"Register\" button'', None)])]"
  by code_simp


lemma register_prompt:
  "\<exists>prompt. buildInterpretationPrompt oracleLib registerFeature = Inr prompt"
  by (simp add: buildInterpretationPrompt_def childScenarios_def registerFeature_def
      promptScenariosOf_def)











section \<open>GherkinAgent: facts about the generated address\<close>



































section \<open>GherkinAgent: a compile from the cache, evaluated\<close>




















text \<open>An answer of the oracle that parses is no case of the fallback: when it is
  \<^verbatim>\<open>null\<close> or holds no array of scenarios, the compilation throws.\<close>

lemma unlisted_answer_throws:
  assumes "files w featureFilePath = Some content"
    and "lookupCache cfg lib featureFilePath content w = (None, w1)"
    and "parseGherkinFile lib content = Inr feat"
    and "buildInterpretationPrompt lib feat = Inr prompt"
    and "reasoningOracle w1 prompt = Reply (Some answer)" and "answer \<noteq> []"
    and "parseInterpretation lib answer = Some interp" and "i_shape interp \<noteq> Listed"
  shows "\<exists>msg. fst (parseAndPlan cfg lib featureFilePath w) = Inl msg"
proof -
  have i: "interpretWithAI lib feat w1 = Inr interp"
    using assms(4-7) by (simp add: interpretWithAI_def)
  have "\<not> listed (assemblePlan feat interp)" using assms(8) by (simp add: assemblePlan_def)
  then show ?thesis
    using assms(1-3) i
    by (simp add: parseAndPlan_def Let_def processDynamicPlaceholders_unlisted)
qed

section \<open>Scenario outlines: replacing tokens in a template\<close>





























section \<open>WebExecutorAgent: lemmas\<close>





lemma recording_parseVision: "parseVision (recording br) = parseVision br"
  and recording_locatorFirst: "locatorFirst (recording br) = locatorFirst br"
  and recording_pageScreenshot:
    "pageScreenshot (recording br) (b, evs) =
       (fst (pageScreenshot br b), (snd (pageScreenshot br b), evs @ [EvScreenshot]))"
  and recording_visionCall:
    "visionCall (recording br) p shot (b, evs) =
       (fst (visionCall br p shot b),
        (snd (visionCall br p shot b), evs @ [EvVision p (fst (visionCall br p shot b))]))"
  and recording_isVisible:
    "isVisible (recording br) sel (b, evs) =
       (fst (isVisible br sel b),
        (snd (isVisible br sel b), evs @ [EvVisible sel (fst (isVisible br sel b))]))"
  and recording_waitForTimeout:
    "waitForTimeout (recording br) ms (b, evs) =
       (fst (waitForTimeout br ms b), (snd (waitForTimeout br ms b), evs @ [EvPause ms]))"
  and recording_waitFor:
    "waitFor (recording br) osel st t (b, evs) =
       (fst (waitFor br osel st t b), (snd (waitFor br osel st t b), evs @ [EvWaitFor osel st t]))"
  and recording_elementText:
    "elementText (recording br) sel (b, evs) =
       (fst (elementText br sel b), (snd (elementText br sel b), evs @ [EvText (Some sel)]))"
  and recording_bodyText:
    "bodyText (recording br) (b, evs) =
       (fst (bodyText br b), (snd (bodyText br b), evs @ [EvText None]))"
  and recording_smartWait:
    "smartWait (recording br) (b, evs) = (smartWait br b, evs @ [EvSmartWait])"
  by (simp_all add: recording_def split_beta)

lemma readReply_recording: "readReply (recording br) = readReply br"
  by (rule ext) (simp add: readReply_def recording_parseVision split: OracleReply.splits option.splits)

lemma executeActionWithVision_recorded:
  assumes "executeActionWithVision (recording br) instruction actionType d (b, evs) = (r, (b', evs'))"
  shows "(\<exists>err. r = Inl err \<and> evs' = evs @ [EvScreenshot]) \<or>
         (\<exists>reply. evs' = evs @ [EvScreenshot,
                               EvVision (visionPrompt actionType instruction d) reply] \<and>
                  r = readReply br reply)"
proof (cases "fst (pageScreenshot br b)")
  case (Inl err)
  with assms show ?thesis
    by (auto simp: executeActionWithVision_def recording_pageScreenshot)
next
  case (Inr shot)
  with assms show ?thesis
    by (auto simp: executeActionWithVision_def recording_pageScreenshot recording_visionCall
        readReply_recording)
qed




















text \<open>The record of the loop of \<^verbatim>\<open>case 'exists'\<close>: rounds that do not find the text,
  then possibly one that does.\<close>

lemma selector_texts:
  "textIs wanted = ''text=\"'' @ wanted @ ''\"''"
  "hasText wanted = ''*:has-text(\"'' @ wanted @ ''\")''"
  "notFoundMessage wanted = ''Expected text \"'' @ wanted @ ''\" not found on page''"
  "verifyInstruction wanted = ''Verify if the text \"'' @ wanted @ ''\" is visible on the screen.''"
  by (simp_all add: textIs_def hasText_def notFoundMessage_def verifyInstruction_def quoted_def)

lemma existsLoop_rounds:
  "existsLoop (recording br) wanted k (b, evs) = (fnd, (b', evs')) \<Longrightarrow>
   \<exists>failed rest. evs' = evs @ concat failed @ rest \<and> list_all (failedRound wanted) failed \<and>
     (if fnd then length failed < 5 - k \<and> foundRound wanted rest
      else length failed = 5 - k \<and> rest = [])"
proof (induction "5 - k" arbitrary: k b evs)
  case 0
  then have "fnd = False \<and> evs' = evs"
    by (simp add: existsLoop.simps[of _ wanted k])
  moreover from 0 have "5 - k = 0" by simp
  ultimately show ?case by (intro exI[of _ "[]"]) simp
next
  case (Suc n)
  then have k: "k < 5" and n: "n = 5 - (k + 1)" by simp_all
  note IH = Suc.hyps(1)[OF n]
  note run = Suc.prems
  let ?e1 = "EvVisible (textIs wanted) (fst (isVisible br (textIs wanted) b))"
  let ?b1 = "snd (isVisible br (textIs wanted) b)"
  let ?e2 = "EvVisible (hasText wanted) (fst (isVisible br (hasText wanted) ?b1))"
  let ?b2 = "snd (isVisible br (hasText wanted) ?b1)"
  show ?case
  proof (cases "fst (isVisible br (textIs wanted) b)")
    case (Inl err)
    with run k have "existsLoop (recording br) wanted (k + 1) (?b1, evs @ [?e1]) = (fnd, (b', evs'))"
      by (simp add: existsLoop.simps[of _ wanted k] recording_isVisible)
    from IH[OF this] obtain failed rest where
      f: "evs' = (evs @ [?e1]) @ concat failed @ rest \<and> list_all (failedRound wanted) failed \<and>
          (if fnd then length failed < 5 - (k + 1) \<and> foundRound wanted rest
           else length failed = 5 - (k + 1) \<and> rest = [])"
      by blast
    have r: "failedRound wanted [?e1]" using Inl by (simp add: failedRound_def selector_texts)
    show ?thesis
      apply (rule exI[of _ "[?e1] # failed"])
      apply (rule exI[of _ rest])
      using f r k by (auto split: if_splits)
  next
    case (Inr v1)
    show ?thesis
    proof (cases v1)
      case True
      with Inr run k have "fnd = True \<and> evs' = evs @ [?e1]"
        by (simp add: existsLoop.simps[of _ wanted k] recording_isVisible)
      moreover have "foundRound wanted [?e1]" using Inr True by (simp add: foundRound_def selector_texts)
      ultimately show ?thesis
        using k by (intro exI[of _ "[]"] exI[of _ "[?e1]"]) simp
    next
      case False
      note first = Inr False
      show ?thesis
      proof (cases "fst (isVisible br (hasText wanted) ?b1)")
        case (Inl err)
        with run k first
        have "existsLoop (recording br) wanted (k + 1) (?b2, evs @ [?e1, ?e2]) = (fnd, (b', evs'))"
          by (simp add: existsLoop.simps[of _ wanted k] recording_isVisible)
        from IH[OF this] obtain failed rest where
          f: "evs' = (evs @ [?e1, ?e2]) @ concat failed @ rest \<and>
              list_all (failedRound wanted) failed \<and>
              (if fnd then length failed < 5 - (k + 1) \<and> foundRound wanted rest
               else length failed = 5 - (k + 1) \<and> rest = [])"
          by blast
        have r: "failedRound wanted [?e1, ?e2]" using Inl first by (simp add: failedRound_def selector_texts)
        show ?thesis
          apply (rule exI[of _ "[?e1, ?e2] # failed"])
          apply (rule exI[of _ rest])
          using f r k by (auto split: if_splits)
      next
        case (Inr v2)
        show ?thesis
        proof (cases v2)
          case True
          with Inr run k first have "fnd = True \<and> evs' = evs @ [?e1, ?e2]"
            by (simp add: existsLoop.simps[of _ wanted k] recording_isVisible)
          moreover have "foundRound wanted [?e1, ?e2]"
            using Inr True first by (simp add: foundRound_def selector_texts)
          ultimately show ?thesis
            using k by (intro exI[of _ "[]"] exI[of _ "[?e1, ?e2]"]) simp
        next
          case False
          with Inr run k first
          have "existsLoop (recording br) wanted (k + 1)
                  (snd (waitForTimeout br 1000 ?b2), evs @ [?e1, ?e2, EvPause 1000])
                = (fnd, (b', evs'))"
            by (simp add: existsLoop.simps[of _ wanted k] recording_isVisible
                recording_waitForTimeout)
          from IH[OF this] obtain failed rest where
            f: "evs' = (evs @ [?e1, ?e2, EvPause 1000]) @ concat failed @ rest \<and>
                list_all (failedRound wanted) failed \<and>
                (if fnd then length failed < 5 - (k + 1) \<and> foundRound wanted rest
                 else length failed = 5 - (k + 1) \<and> rest = [])"
            by blast
          have r: "failedRound wanted [?e1, ?e2, EvPause 1000]"
            using Inr False first by (simp add: failedRound_def selector_texts)
          show ?thesis
            apply (rule exI[of _ "[?e1, ?e2, EvPause 1000] # failed"])
            apply (rule exI[of _ rest])
            using f r k by (auto split: if_splits)
        qed
      qed
    qed
  qed
qed

lemma captureActual_recorded:
  "captureActual (recording br) sel (b, evs) = (r, (b', evs')) \<Longrightarrow>
   \<exists>pre. evs' = evs @ pre \<and> list_all (\<lambda>e. \<not> isDomCheck e \<and> \<not> isVisionCall e) pre"
  by (auto simp: captureActual_def recording_locatorFirst recording_waitFor recording_elementText
      recording_bodyText split: option.splits if_splits prod.splits sum.splits)

lemma askVision_verdict:
  "askVision br wanted b =
     (case executeActionWithVision br (verifyInstruction wanted) ''validate'' JNull b of
        (answer, b1) \<Rightarrow> (visionVerdict wanted answer, b1))"
  by (simp add: askVision_def visionVerdict_def selector_texts split: prod.splits sum.splits)

lemma validateExists_recorded:
  assumes run: "validateExists (recording br) useVision wanted (b, evs) = (r, (b', evs'))"
  shows "\<exists>failed rest. evs' = evs @ concat failed @ rest \<and>
      list_all (failedRound wanted) failed \<and>
      ((length failed < 5 \<and> foundRound wanted rest \<and> r = Inr (Validated True)) \<or>
       (length failed = 5 \<and> \<not> useVision \<and> rest = [] \<and> r = Inl (notFoundMessage wanted)) \<or>
       (length failed = 5 \<and> useVision \<and> rest = [EvScreenshot] \<and> (\<exists>err. r = Inl err)) \<or>
       (length failed = 5 \<and> useVision \<and>
        (\<exists>reply. rest = [EvScreenshot,
                         EvVision (ValidatePrompt (verifyInstruction wanted)) reply] \<and>
                 r = visionVerdict wanted (readReply br reply))))"
proof -
  obtain fnd b3 evs3 where l: "existsLoop (recording br) wanted 0 (b, evs) = (fnd, (b3, evs3))"
    by (metis surj_pair)
  from existsLoop_rounds[OF l] obtain failed rest0 where
    e3: "evs3 = evs @ concat failed @ rest0" and fl: "list_all (failedRound wanted) failed" and
    c: "if fnd then length failed < 5 - 0 \<and> foundRound wanted rest0
        else length failed = 5 - 0 \<and> rest0 = []"
    by blast
  show ?thesis
  proof (cases fnd)
    case True
    with run l have "r = Inr (Validated True) \<and> evs' = evs3"
      by (simp add: validateExists_def)
    with True c e3 fl show ?thesis
      by (intro exI[of _ failed] exI[of _ rest0]) simp
  next
    case False
    with c have len: "length failed = 5" and r0: "rest0 = []" by simp_all
    show ?thesis
    proof (cases useVision)
      case uv: False
      with False run l have "r = Inl (notFoundMessage wanted) \<and> evs' = evs3"
        by (simp add: validateExists_def)
      with uv len r0 e3 fl show ?thesis
        by (intro exI[of _ failed] exI[of _ "[]"]) simp
    next
      case uv: True
      obtain answer b4 evs4 where
        a: "executeActionWithVision (recording br) (verifyInstruction wanted) ''validate'' JNull
              (b3, evs3) = (answer, (b4, evs4))"
        by (metis surj_pair)
      with uv False run l have res: "r = visionVerdict wanted answer" and e4: "evs' = evs4"
        by (simp_all add: validateExists_def askVision_verdict)
      from executeActionWithVision_recorded[OF a]
      consider (shot) err where "answer = Inl err" "evs4 = evs3 @ [EvScreenshot]"
        | (asked) reply where
            "evs4 = evs3 @ [EvScreenshot,
               EvVision (visionPrompt ''validate'' (verifyInstruction wanted) JNull) reply]"
            "answer = readReply br reply"
        by blast
      then show ?thesis
      proof cases
        case shot
        with res have "r = Inl err" by (simp add: visionVerdict_def)
        with shot uv len r0 e3 e4 fl show ?thesis
          by (intro exI[of _ failed] exI[of _ "[EvScreenshot]"]) simp
      next
        case asked
        have "visionPrompt ''validate'' (verifyInstruction wanted) JNull
              = ValidatePrompt (verifyInstruction wanted)"
          by (simp add: visionPrompt_def)
        with asked res uv len r0 e3 e4 fl show ?thesis
          by (intro exI[of _ failed]
              exI[of _ "[EvScreenshot, EvVision (ValidatePrompt (verifyInstruction wanted)) reply]"])
             simp
      qed
    qed
  qed
qed

lemma thanksRun_facts:
  "fst thanksRun = Inl ''Expected text \"Thanks\" not found on page''"
  "length (filter isDomCheck (snd (snd thanksRun))) = 10"
  "filter isVisionCall (snd (snd thanksRun)) =
     [EvVision (ValidatePrompt ''Verify if the text \"Thanks\" is visible on the screen.'')
        (Reply (Some absentAnswer))]"
  by code_simp+

section \<open>GherkinAgent: the cache lookup\<close>

text \<open>
  Claim C7, as amended. A cache hit requires that the stored content hash equals the hash
  of the current source text and that the entry is not older than 7 days: its age, where
  the timestamp is a date, is at most 7 days (604800000 ms), the bound included. An entry
  older than 7 days is a miss even when the hashes are equal.
\<close>

theorem getCachedPlan_hit_requires:
  "(getCachedPlan lib featureFilePath content w = (Some p, w') \<longrightarrow>
      (\<exists>cached. cacheFiles w (getCacheFilePath lib featureFilePath) = Some (Entry cached) \<and>
         contentHash cached = Some (generateHash lib content) \<and> plan cached = Some p \<and>
         (\<forall>ts. timestamp cached = Some ts \<longrightarrow> times w (tick w) - ts \<le> 604800000))) \<and>
   (cacheFiles w (getCacheFilePath lib featureFilePath) = Some (Entry cached') \<and>
      timestamp cached' = Some ts' \<and> times w (tick w) - ts' > 604800000 \<longrightarrow>
      fst (getCachedPlan lib featureFilePath content w) = None)"
proof (intro conjI impI)
  assume hit: "getCachedPlan lib featureFilePath content w = (Some p, w')"
  show "\<exists>cached. cacheFiles w (getCacheFilePath lib featureFilePath) = Some (Entry cached) \<and>
         contentHash cached = Some (generateHash lib content) \<and> plan cached = Some p \<and>
         (\<forall>ts. timestamp cached = Some ts \<longrightarrow> times w (tick w) - ts \<le> 604800000)"
  proof (cases "cacheFiles w (getCacheFilePath lib featureFilePath)")
    case None
    with hit show ?thesis by (simp add: getCachedPlan_def)
  next
    case (Some cf)
    show ?thesis
    proof (cases cf)
      case Unreadable
      with hit Some show ?thesis by (simp add: getCachedPlan_def)
    next
      case (Entry cached)
      with hit Some have "contentHash cached = Some (generateHash lib content)"
        by (simp add: getCachedPlan_def split: if_splits)
      moreover from hit Some Entry have "plan cached = Some p"
        by (simp add: getCachedPlan_def dateNow_def split: if_splits)
      moreover from hit Some Entry
      have "\<forall>ts. timestamp cached = Some ts \<longrightarrow> times w (tick w) - ts \<le> 604800000"
        by (auto simp: getCachedPlan_def dateNow_def maxAge_def split: if_splits)
      ultimately show ?thesis using Some Entry by simp
    qed
  qed
next
  assume "cacheFiles w (getCacheFilePath lib featureFilePath) = Some (Entry cached') \<and>
      timestamp cached' = Some ts' \<and> times w (tick w) - ts' > 604800000"
  then show "fst (getCachedPlan lib featureFilePath content w) = None"
    by (simp add: getCachedPlan_def dateNow_def maxAge_def)
qed

theorem getCachedPlan_hit_requires_witness:
  "fst (getCachedPlan sampleLib ''register.feature'' ''Feature: Register''
          (cachedWorld 1000 90000000)) = Some emailPlan \<and>
   fst (getCachedPlan sampleLib ''register.feature'' ''Feature: Register''
          (cachedWorld 1000 604801001)) = None"
proof -
  have hit: "getCachedPlan sampleLib ''register.feature'' ''Feature: Register''
          (cachedWorld 1000 90000000) = (Some emailPlan, (cachedWorld 1000 90000000)\<lparr>tick := 1\<rparr>)"
    by (simp add: getCachedPlan_def sampleLib_def cachedWorld_def dateNow_def maxAge_def)
  have old: "cacheFiles (cachedWorld 1000 604801001)
         (getCacheFilePath sampleLib ''register.feature'') =
       Some (Entry \<lparr>featureFile = ''register.feature'',
                contentHash = Some ''md5-Feature: Register'',
                timestamp = Some 1000, plan = Some emailPlan\<rparr>) \<and>
     timestamp \<lparr>featureFile = ''register.feature'',
                contentHash = Some ''md5-Feature: Register'',
                timestamp = Some 1000, plan = Some emailPlan\<rparr> = Some 1000 \<and>
     times (cachedWorld 1000 604801001) (tick (cachedWorld 1000 604801001)) - 1000 > 604800000"
    by (simp add: sampleLib_def cachedWorld_def)
  from getCachedPlan_hit_requires[of sampleLib "''register.feature''" "''Feature: Register''"
      "cachedWorld 1000 604801001" emailPlan "cachedWorld 1000 604801001" _ 1000] old
  have "fst (getCachedPlan sampleLib ''register.feature'' ''Feature: Register''
          (cachedWorld 1000 604801001)) = None"
    by blast
  with hit show ?thesis by simp
qed

text \<open>The claim as stated asks for an age below 7 days; an entry that is exactly 7 days
  old, with the same hash, is a hit.\<close>

theorem cache_hit_at_seven_days_counterexample:
  "fst (getCachedPlan sampleLib ''register.feature'' ''Feature: Register''
          (cachedWorld 1000 604801000)) = Some emailPlan \<and>
   \<not> (times (cachedWorld 1000 604801000) (tick (cachedWorld 1000 604801000)) - 1000
        < 7 * 24 * 60 * 60 * 1000)"
  by (simp add: getCachedPlan_def sampleLib_def cachedWorld_def dateNow_def maxAge_def)

section \<open>GherkinAgent: what becomes of the oracle's selectors\<close>

text \<open>
  Claim C9, as amended. When the plan comes from a parsable answer of the Reasoning Oracle,
  the compiler copies the answer's scenarios into the plan as they are: every step of the
  compiled plan carries the \<open>selector\<close> the oracle returned, empty or not. The prompt
  asks the oracle for empty selectors; the compiler neither checks nor clears them.
\<close>

theorem oracle_selector_passes_through:
  assumes "files w featureFilePath = Some content"
    and "lookupCache cfg lib featureFilePath content w = (None, w1)"
    and "parseGherkinFile lib content = Inr feat"
    and "buildInterpretationPrompt lib feat = Inr prompt"
    and "reasoningOracle w1 prompt = Reply (Some answer)" and "answer \<noteq> []"
    and "parseInterpretation lib answer = Some interp"
    and "parseAndPlan cfg lib featureFilePath w = (Inr p, w')"
  shows "map (\<lambda>sc. map selector (steps sc)) (scenarios p) =
         map (\<lambda>sc. map selector (steps sc)) (i_scenarios interp)"
proof -
  have i: "interpretWithAI lib feat w1 = Inr interp"
    using assms(4-7) by (simp add: interpretWithAI_def)
  obtain w2 where
    "processDynamicPlaceholders lib (assemblePlan feat interp) w2 = (Inr p, w')"
    using assms(1-3,8) i by (auto simp: parseAndPlan_def Let_def split: if_splits)
  from processDynamicPlaceholders_selectors[OF this]
  show ?thesis by (simp add: assemblePlan_def)
qed

lemma oracle_run:
  "fst (parseAndPlan defaultConfig oracleLib ''register.feature''
          (freshWorld (Reply (Some ''{answer}'')))) = Inr oracleCompiled"
  by (simp add: parseAndPlan_def lookupCache_def getCachedPlan_def defaultConfig_def oracleLib_def
      sampleLib_def freshWorld_def parseGherkinFile_def interpretWithAI_def
      buildInterpretationPrompt_def childScenarios_def registerFeature_def promptScenariosOf_def
      assemblePlan_def saveToCache_def dateNow_def processDynamicPlaceholders_def
      processScenario_def processStep_def processData_def oracleAnswer_def oracleCompiled_def
      Let_def)

theorem oracle_selector_passes_through_witness:
  "map (\<lambda>sc. map selector (steps sc)) (scenarios oracleCompiled) =
   map (\<lambda>sc. map selector (steps sc)) (i_scenarios oracleAnswer) \<and>
   parseInterpretation oracleLib ''{answer}'' = Some oracleAnswer"
proof -
  let ?w = "freshWorld (Reply (Some ''{answer}''))"
  obtain prompt where pr: "buildInterpretationPrompt oracleLib registerFeature = Inr prompt"
    using register_prompt by blast
  have h1: "files ?w ''register.feature'' = Some ''Feature: Register''"
    by (simp add: freshWorld_def)
  have h2: "lookupCache defaultConfig oracleLib ''register.feature'' ''Feature: Register'' ?w
            = (None, ?w)"
    by (simp add: lookupCache_def getCachedPlan_def freshWorld_def defaultConfig_def)
  have h3: "parseGherkinFile oracleLib ''Feature: Register'' = Inr registerFeature"
    by (simp add: parseGherkinFile_def oracleLib_def)
  have h5: "reasoningOracle ?w prompt = Reply (Some ''{answer}'')"
    by (simp add: freshWorld_def)
  have h6: "''{answer}'' \<noteq> []" by simp
  have h7: "parseInterpretation oracleLib ''{answer}'' = Some oracleAnswer"
    by (simp add: oracleLib_def)
  have h8: "parseAndPlan defaultConfig oracleLib ''register.feature'' ?w =
     (Inr oracleCompiled, snd (parseAndPlan defaultConfig oracleLib ''register.feature'' ?w))"
    using oracle_run by (simp add: prod_eq_iff)
  from oracle_selector_passes_through[OF h1 h2 h3 pr h5 h6 h7 h8] h7
  show ?thesis by simp
qed

text \<open>The claim as stated: an oracle answer with a non-empty selector compiles to a step
  with an empty selector. The compiled step carries the oracle's selector.\<close>

theorem oracle_selector_kept_counterexample:
  "\<exists>p. fst (parseAndPlan defaultConfig oracleLib ''register.feature''
               (freshWorld (Reply (Some ''{answer}'')))) = Inr p \<and>
       map (\<lambda>sc. map selector (steps sc)) (i_scenarios oracleAnswer) = [[Some ''#register-btn'']] \<and>
       map (\<lambda>sc. map selector (steps sc)) (scenarios p) = [[Some ''#register-btn'']]"
  by (simp add: oracle_run oracleCompiled_def oracleAnswer_def)

section \<open>GherkinAgent: the heuristic fallback\<close>



section \<open>GherkinAgent: placeholder substitution on every compile\<close>




section \<open>Scenario outlines: the expansion in the request\<close>




section \<open>C4: what the resolver does with the oracle's content\<close>




section \<open>C6: validating that a text exists\<close>

text \<open>
  Claim C6, as the code has it. A validation of type \<^verbatim>\<open>exists\<close> is run on a browser that
  records its calls; \<open>evs\<close> is the record. It splits into a quiet part without any
  visibility check and without any request to the Vision Oracle (the waits and the
  reading of the page), then rounds of visibility checks that do not find the text, then
  a rest. Each such round checks the strategy \<^verbatim>\<open>text="..."\<close> first and
  \<^verbatim>\<open>*:has-text("...")\<close> second and is followed by a pause of 1000 ms when both answered
  no; a round in which a check throws has no pause. One of five cases holds. The
  validation raised before the checks. Or a round found the text after fewer than 5
  rounds that did not, the validation passes, and the oracle is not asked. Or 5 rounds
  did not find it and vision is off: the validation fails with the message
  \<^verbatim>\<open>Expected text "..." not found on page\<close>. Or 5 rounds did not find it, vision is on,
  and the screenshot for the oracle fails: the validation raises. Or 5 rounds did not
  find it, vision is on, and the oracle is asked once, with the prompt of the action
  type \<^verbatim>\<open>validate\<close>: the validation passes if the parsed answer has \<^verbatim>\<open>found\<close> true,
  fails with the same message if it has not, and raises the error of the oracle call or
  of the parsing otherwise. The text in the selectors and in the message is the expected
  string where the expectation is a non-empty string.
\<close>

theorem exists_validation_dom_then_vision:
  assumes v: "validation step = Some (''exists'', expected)"
    and run: "validate (recording br) useVision step (b, []) = (r, (b', evs))"
  shows "(\<exists>pre failed rest.
      evs = pre @ concat failed @ rest \<and>
      list_all (\<lambda>e. \<not> isDomCheck e \<and> \<not> isVisionCall e) pre \<and>
      list_all (failedRound (searchTextOf expected (selector step))) failed \<and>
      ((failed = [] \<and> rest = [] \<and> (\<exists>err. r = Inl err)) \<or>
       (length failed < 5 \<and> foundRound (searchTextOf expected (selector step)) rest \<and>
        r = Inr (Validated True)) \<or>
       (length failed = 5 \<and> \<not> useVision \<and> rest = [] \<and>
        r = Inl (''Expected text \"'' @ searchTextOf expected (selector step) @
                 ''\" not found on page'')) \<or>
       (length failed = 5 \<and> useVision \<and> rest = [EvScreenshot] \<and> (\<exists>err. r = Inl err)) \<or>
       (length failed = 5 \<and> useVision \<and>
        (\<exists>reply. rest = [EvScreenshot,
                         EvVision (ValidatePrompt
                           (''Verify if the text \"'' @ searchTextOf expected (selector step) @
                            ''\" is visible on the screen.'')) reply] \<and>
                 r = visionVerdict (searchTextOf expected (selector step))
                       (readReply br reply))))) \<and>
    (\<forall>s. expected = JStr s \<and> s \<noteq> [] \<longrightarrow> searchTextOf expected (selector step) = s)"
proof (intro conjI allI impI)
  let ?wanted = "searchTextOf expected (selector step)"
  let ?ms = "if isConfirmationMessage expected (selector step) then 4000 else 2000 :: nat"
  let ?b0 = "smartWait br b"
  let ?evs1 = "[EvSmartWait, EvPause ?ms]"
  let ?quiet = "list_all (\<lambda>e. \<not> isDomCheck e \<and> \<not> isVisionCall e)"
  show "\<exists>pre failed rest.
      evs = pre @ concat failed @ rest \<and>
      list_all (\<lambda>e. \<not> isDomCheck e \<and> \<not> isVisionCall e) pre \<and>
      list_all (failedRound (searchTextOf expected (selector step))) failed \<and>
      ((failed = [] \<and> rest = [] \<and> (\<exists>err. r = Inl err)) \<or>
       (length failed < 5 \<and> foundRound (searchTextOf expected (selector step)) rest \<and>
        r = Inr (Validated True)) \<or>
       (length failed = 5 \<and> \<not> useVision \<and> rest = [] \<and>
        r = Inl (''Expected text \"'' @ searchTextOf expected (selector step) @
                 ''\" not found on page'')) \<or>
       (length failed = 5 \<and> useVision \<and> rest = [EvScreenshot] \<and> (\<exists>err. r = Inl err)) \<or>
       (length failed = 5 \<and> useVision \<and>
        (\<exists>reply. rest = [EvScreenshot,
                         EvVision (ValidatePrompt
                           (''Verify if the text \"'' @ searchTextOf expected (selector step) @
                            ''\" is visible on the screen.'')) reply] \<and>
                 r = visionVerdict (searchTextOf expected (selector step))
                       (readReply br reply))))"
    (is ?main)
  proof (cases "fst (waitForTimeout br ?ms ?b0)")
    case (Some err)
    with v run have "r = Inl err \<and> evs = ?evs1"
      by (simp add: validate_def recording_smartWait recording_waitForTimeout)
    then show ?main
      by (intro exI[of _ ?evs1] exI[of _ "[]"]) simp
  next
    case None
    let ?b1 = "snd (waitForTimeout br ?ms ?b0)"
    obtain ra b2 evs2 where
      ca: "captureActual (recording br) (selector step) (?b1, ?evs1) = (ra, (b2, evs2))"
      by (metis surj_pair)
    from captureActual_recorded[OF ca] obtain pre0 where
      e2: "evs2 = ?evs1 @ pre0" and q: "?quiet pre0"
      by blast
    have q2: "?quiet evs2" using e2 q by simp
    show ?main
    proof (cases ra)
      case (Inl err)
      with v run None ca have "r = Inl err \<and> evs = evs2"
        by (simp add: validate_def recording_smartWait recording_waitForTimeout)
      with q2 show ?main
        by (intro exI[of _ evs2] exI[of _ "[]"]) simp
    next
      case (Inr actual)
      with v run None ca
      have "validateExists (recording br) useVision ?wanted (b2, evs2) = (r, (b', evs))"
        by (simp add: validate_def recording_smartWait recording_waitForTimeout)
      from validateExists_recorded[OF this, unfolded selector_texts] obtain failed rest where
        "evs = evs2 @ concat failed @ rest \<and>
         list_all (failedRound ?wanted) failed \<and>
         ((length failed < 5 \<and> foundRound ?wanted rest \<and> r = Inr (Validated True)) \<or>
          (length failed = 5 \<and> \<not> useVision \<and> rest = [] \<and>
           r = Inl (''Expected text \"'' @ ?wanted @ ''\" not found on page'')) \<or>
          (length failed = 5 \<and> useVision \<and> rest = [EvScreenshot] \<and> (\<exists>err. r = Inl err)) \<or>
          (length failed = 5 \<and> useVision \<and>
           (\<exists>reply. rest = [EvScreenshot,
                            EvVision (ValidatePrompt
                              (''Verify if the text \"'' @ ?wanted @
                               ''\" is visible on the screen.'')) reply] \<and>
                    r = visionVerdict ?wanted (readReply br reply))))"
        by blast
      with q2 show ?main
        by (intro exI[of _ evs2] exI[of _ failed] exI[of _ rest]) blast
    qed
  qed
next
  fix s
  assume "expected = JStr s \<and> s \<noteq> []"
  then show "searchTextOf expected (selector step) = s"
    by (simp add: searchTextOf_def)
qed

text \<open>The witness: a page that never shows \<^verbatim>\<open>Thanks\<close> and an oracle that answers
  \<^verbatim>\<open>{"found": false}\<close>. The record holds ten visibility checks and one request to the
  oracle, and the validation fails naming the text.\<close>

theorem exists_validation_dom_then_vision_witness:
  "validation thanksStep = Some (''exists'', JStr ''Thanks'') \<and>
   fst thanksRun = Inl ''Expected text \"Thanks\" not found on page'' \<and>
   length (filter isDomCheck (snd (snd thanksRun))) = 10 \<and>
   filter isVisionCall (snd (snd thanksRun)) =
     [EvVision (ValidatePrompt ''Verify if the text \"Thanks\" is visible on the screen.'')
        (Reply (Some absentAnswer))] \<and>
   (\<exists>pre failed rest.
      snd (snd thanksRun) = pre @ concat failed @ rest \<and>
      list_all (\<lambda>e. \<not> isDomCheck e \<and> \<not> isVisionCall e) pre \<and>
      list_all (failedRound ''Thanks'') failed \<and>
      ((failed = [] \<and> rest = [] \<and> (\<exists>err. fst thanksRun = Inl err)) \<or>
       (length failed < 5 \<and> foundRound ''Thanks'' rest \<and> fst thanksRun = Inr (Validated True)) \<or>
       (length failed = 5 \<and> \<not> True \<and> rest = [] \<and>
        fst thanksRun = Inl (''Expected text \"'' @ ''Thanks'' @ ''\" not found on page'')) \<or>
       (length failed = 5 \<and> True \<and> rest = [EvScreenshot] \<and> (\<exists>err. fst thanksRun = Inl err)) \<or>
       (length failed = 5 \<and> True \<and>
        (\<exists>reply. rest = [EvScreenshot,
                         EvVision (ValidatePrompt
                           (''Verify if the text \"'' @ ''Thanks'' @
                            ''\" is visible on the screen.'')) reply] \<and>
                 fst thanksRun = visionVerdict ''Thanks''
                       (readReply (samplePage 100 absentAnswer) reply)))))"
proof -
  have v: "validation thanksStep = Some (''exists'', JStr ''Thanks'')"
    by (simp add: thanksStep_def)
  have run: "validate (recording (samplePage 100 absentAnswer)) True thanksStep (0, [])
             = (fst thanksRun, (fst (snd thanksRun), snd (snd thanksRun)))"
    by (simp add: thanksRun_def)
  note both = exists_validation_dom_then_vision[OF v run]
  from both have w: "searchTextOf (JStr ''Thanks'') (selector thanksStep) = ''Thanks''"
    by simp
  note main = both[THEN conjunct1, unfolded w]
  show ?thesis
    by (intro conjI v thanksRun_facts main)
qed

text \<open>Against C6 as worded. First run: the page never shows \<^verbatim>\<open>Thanks\<close> and the oracle
  answers with a sentence; neither the checks nor the oracle find the text, and the
  validation fails with the error of the parsing, which does not name the text. Second
  run: every visibility check throws; the five rounds follow each other without any
  pause of one second.\<close>

theorem validation_oracle_error_and_unspaced_rounds_counterexample:
  "fst (validate (recording (samplePage 100 ''I cannot tell'')) True thanksStep (0, []))
     = Inl ''Vision AI returned invalid JSON'' \<and>
   fst (validate (recording closedPage) False thanksStep (0, []))
     = Inl ''Expected text \"Thanks\" not found on page'' \<and>
   length (filter isDomCheck
     (snd (snd (validate (recording closedPage) False thanksStep (0, []))))) = 5 \<and>
   filter (\<lambda>e. e = EvPause 1000)
     (snd (snd (validate (recording closedPage) False thanksStep (0, [])))) = []"
  by code_simp

section \<open>C8: the advisory fields of the oracle's answer\<close>



end
